theory Spec2Isabelle
  imports Complex_Main "HOL-Library.Sublist" "HOL-Library.AList" "HOL-Library.Multiset"
begin

text \<open>
  A shallow embedding of the snapshot analyzer \<open>OutlookDOMDiff\<close>: the browser variant
  (\<open>browser/outlook-diff-analyzer.js\<close>) and the analyzer of the command-line tool. The
  DOM and its selector engine are the host's; they are modelled first, then each
  function of the analyzer is translated under its own name, and the properties of the
  specification are proved about these translations.
\<close>

section \<open>Strings\<close>

text \<open>
  JavaScript strings are modelled as \<open>string\<close> (lists of 8-bit characters), so the
  model covers ASCII text: \<open>toLowerCase\<close> folds the letters A to Z only, and
  \<open>length\<close> counts characters.
\<close>

text \<open>
  The letters A to Z have the codes 65 to 90; the lower-case letter is 32 further, which
  for these codes means setting the bit of value 32.
\<close>

definition toLowerChar :: "char \<Rightarrow> char" where
  "toLowerChar c =
     (let n = (of_char c :: nat) in
        if 65 \<le> n \<and> n \<le> 90
        then (case c of Char b0 b1 b2 b3 b4 b5 b6 b7 \<Rightarrow> Char b0 b1 b2 b3 b4 True b6 b7)
        else c)"

definition toLowerCase :: "string \<Rightarrow> string" where
  "toLowerCase s = map toLowerChar s"

text \<open>\<open>s.includes(t)\<close>: \<open>t\<close> occurs in \<open>s\<close> as a contiguous substring.\<close>

definition stringIncludes :: "string \<Rightarrow> string \<Rightarrow> bool" where
  "stringIncludes s t = sublist t s"

text \<open>\<open>s.startsWith(p)\<close>.\<close>

definition startsWith :: "string \<Rightarrow> string \<Rightarrow> bool" where
  "startsWith s p = prefix p s"

text \<open>\<open>s.split(sep)\<close> for a one-character separator: \<open>''''.split(' ')\<close> is \<open>['''']\<close>.\<close>

fun split :: "char \<Rightarrow> string \<Rightarrow> string list" where
  "split sep [] = [[]]"
| "split sep (c # cs) =
     (if c = sep then [] # split sep cs
      else (case split sep cs of [] \<Rightarrow> [[c]] | w # ws \<Rightarrow> (c # w) # ws))"

text \<open>Decimal rendering of a non-negative integer, as string concatenation does.\<close>

definition digitChar :: "nat \<Rightarrow> char" where
  "digitChar d = ''0123456789'' ! d"

fun stringOfNat :: "nat \<Rightarrow> string" where
  "stringOfNat n =
     (if n < 10 then [digitChar n] else stringOfNat (n div 10) @ [digitChar (n mod 10)])"

declare stringOfNat.simps [simp del]

section \<open>The DOM\<close>

text \<open>
  A parsed snapshot is a document: its rendering mode and a tree of element and text
  nodes. Parsing itself (\<open>DOMParser\<close>, \<open>JSDOM\<close>) belongs to the host and is not
  modelled: the analysis starts from the two documents. The parser puts an element in
  the HTML, the SVG or the MathML namespace, and puts the document in quirks mode when
  the markup has no document type declaration.
\<close>

datatype namespace = Html | Svg | MathMl

datatype node =
    Element namespace string "(string \<times> string) list" "node list"
  | Text string

text \<open>
  An element handle is the element together with the way up to the root: one frame per
  ancestor, nearest first, holding the ancestor's namespace, tag and attributes and the
  siblings to the left (nearest first) and to the right of the node the way passes
  through.
\<close>

record frame =
  parentNamespace :: namespace
  parentTag :: string
  parentAttributes :: "(string \<times> string) list"
  lefts :: "node list"
  rights :: "node list"

record element =
  namespaceURI :: namespace
  tagName :: string
  attributes :: "(string \<times> string) list"
  childNodes :: "node list"
  ancestors :: "frame list"

record document =
  quirksMode :: bool
  documentElement :: node

fun isElement :: "node \<Rightarrow> bool" where
  "isElement (Element ns t a ks) = True"
| "isElement (Text s) = False"

text \<open>All elements of a subtree in document order (the order of \<open>querySelectorAll\<close>).\<close>

fun subtreeElements :: "frame list \<Rightarrow> node \<Rightarrow> element list"
  and childElements ::
    "namespace \<Rightarrow> string \<Rightarrow> (string \<times> string) list \<Rightarrow> frame list \<Rightarrow> node list \<Rightarrow> node list
       \<Rightarrow> element list"
where
  "subtreeElements ctx (Text s) = []"
| "subtreeElements ctx (Element ns t a ks) =
     \<lparr>namespaceURI = ns, tagName = t, attributes = a, childNodes = ks, ancestors = ctx\<rparr>
       # childElements ns t a ctx [] ks"
| "childElements ns t a ctx ls [] = []"
| "childElements ns t a ctx ls (k # ks) =
     subtreeElements
         (\<lparr>parentNamespace = ns, parentTag = t, parentAttributes = a, lefts = ls, rights = ks\<rparr> # ctx) k
       @ childElements ns t a ctx (k # ls) ks"

definition allElements :: "document \<Rightarrow> element list" where
  "allElements doc = subtreeElements [] (documentElement doc)"

text \<open>\<open>el.getAttribute(name)\<close>: the value, or \<open>null\<close> (here \<open>None\<close>).\<close>

definition getAttribute :: "element \<Rightarrow> string \<Rightarrow> string option" where
  "getAttribute el name = map_of (attributes el) name"

text \<open>\<open>el.id\<close>: the value of the \<open>id\<close> attribute, the empty string when absent.\<close>

definition elementId :: "element \<Rightarrow> string" where
  "elementId el = (case getAttribute el ''id'' of Some v \<Rightarrow> v | None \<Rightarrow> [])"

text \<open>
  \<open>el.className\<close>: the string value of the \<open>class\<close> attribute (the empty string when
  absent), except on an SVG element, where it is an \<open>SVGAnimatedString\<close> object. The
  object is truthy and has no method \<open>split\<close>.
\<close>

datatype class_name = ClassString string | AnimatedString

definition classAttribute :: "element \<Rightarrow> string" where
  "classAttribute el = (case getAttribute el ''class'' of Some v \<Rightarrow> v | None \<Rightarrow> [])"

definition className :: "element \<Rightarrow> class_name" where
  "className el =
     (if namespaceURI el = Svg then AnimatedString else ClassString (classAttribute el))"

text \<open>\<open>node.textContent\<close>: the text of all descendant text nodes, in order.\<close>

fun nodeText :: "node \<Rightarrow> string" where
  "nodeText (Text s) = s"
| "nodeText (Element ns t a ks) = concat (map nodeText ks)"

definition textContent :: "element \<Rightarrow> string" where
  "textContent el = concat (map nodeText (childNodes el))"

text \<open>\<open>el.children.length\<close>.\<close>

definition childrenCount :: "element \<Rightarrow> nat" where
  "childrenCount el = length (filter isElement (childNodes el))"

text \<open>
  The element siblings before and after an element (nearest first), as reached by
  \<open>previousElementSibling\<close> and \<open>nextElementSibling\<close>. The root has none.
\<close>

definition previousElementSiblings :: "element \<Rightarrow> node list" where
  "previousElementSiblings el =
     (case ancestors el of [] \<Rightarrow> [] | f # fs \<Rightarrow> filter isElement (lefts f))"

definition nextElementSiblings :: "element \<Rightarrow> node list" where
  "nextElementSiblings el =
     (case ancestors el of [] \<Rightarrow> [] | f # fs \<Rightarrow> filter isElement (rights f))"

fun nodeTag :: "node \<Rightarrow> string" where
  "nodeTag (Element ns t a ks) = t"
| "nodeTag (Text s) = []"

section \<open>The selector engine\<close>

text \<open>
  \<open>querySelector\<close> and \<open>querySelectorAll\<close> belong to the host. The model implements
  the selector forms that occur in the program: \<open>*\<close>, \<open>.name\<close>, \<open>[name]\<close>,
  \<open>[name="value"]\<close> and \<open>[name*="value"]\<close>, with names written without escapes,
  attribute names in lower case, and values compared for the attributes \<open>role\<close>,
  \<open>aria-*\<close> and \<open>data-*\<close> (whose values every document compares case-sensitively).
  A query raises \<open>SyntaxError\<close> for a string that no selector grammar accepts; the
  model recognises the ones in \<open>invalidSelector\<close>. For every other string the host's
  answer is left unspecified (\<open>hostAnswer\<close>): nothing is claimed about it.
\<close>

datatype error = SyntaxError | TypeError

datatype selector =
    Universal
  | ClassSel string
  | HasAttr string
  | AttrEquals string string
  | AttrContains string string

definition isDigitChar :: "char \<Rightarrow> bool" where
  "isDigitChar c = (let n = (of_char c :: nat) in 48 \<le> n \<and> n \<le> 57)"

definition isUpperChar :: "char \<Rightarrow> bool" where
  "isUpperChar c = (let n = (of_char c :: nat) in 65 \<le> n \<and> n \<le> 90)"

definition isNameStartChar :: "char \<Rightarrow> bool" where
  "isNameStartChar c =
     (let n = (of_char c :: nat) in (65 \<le> n \<and> n \<le> 90) \<or> (97 \<le> n \<and> n \<le> 122) \<or> n = 95)"

definition isIdentChar :: "char \<Rightarrow> bool" where
  "isIdentChar c =
     (let n = (of_char c :: nat) in
        (48 \<le> n \<and> n \<le> 57) \<or> (65 \<le> n \<and> n \<le> 90) \<or> (97 \<le> n \<and> n \<le> 122) \<or> n = 45 \<or> n = 95)"

text \<open>
  An identifier: name characters, beginning with a letter or an underscore, or with a
  hyphen followed by one of these or by a second hyphen.
\<close>

definition isIdent :: "string \<Rightarrow> bool" where
  "isIdent s =
     (list_all isIdentChar s \<and>
      (case s of
         [] \<Rightarrow> False
       | c # cs \<Rightarrow>
           isNameStartChar c \<or>
           (c = CHR ''-'' \<and> (case cs of [] \<Rightarrow> False | d # ds \<Rightarrow> isNameStartChar d \<or> d = CHR ''-''))))"

definition isAttributeName :: "string \<Rightarrow> bool" where
  "isAttributeName s = (isIdent s \<and> \<not> list_ex isUpperChar s)"

definition comparesValues :: "string \<Rightarrow> bool" where
  "comparesValues n = (n = ''role'' \<or> startsWith n ''aria-'' \<or> startsWith n ''data-'')"

text \<open>
  The quoted value and the closing bracket: \<open>value"]\<close>, the value without quote,
  backslash or line break.
\<close>

definition parseQuoted :: "string \<Rightarrow> string option" where
  "parseQuoted r =
     (let n = length r; v = take (n - 2) r in
        if 2 \<le> n \<and> drop (n - 2) r = [CHR 0x22, CHR '']'']
           \<and> CHR 0x22 \<notin> set v \<and> CHR 0x5C \<notin> set v
           \<and> CHR 0x0A \<notin> set v \<and> CHR 0x0C \<notin> set v \<and> CHR 0x0D \<notin> set v
        then Some v else None)"

definition parseAttributeSelector :: "string \<Rightarrow> selector option" where
  "parseAttributeSelector s =
     (let name = takeWhile isIdentChar s; r = dropWhile isIdentChar s in
        if \<not> isAttributeName name then None
        else if r = '']'' then Some (HasAttr name)
        else if \<not> comparesValues name then None
        else (case r of
                c1 # c2 # r2 \<Rightarrow>
                  if c1 = CHR ''='' \<and> c2 = CHR 0x22 then map_option (AttrEquals name) (parseQuoted r2)
                  else if c1 = CHR ''*'' \<and> c2 = CHR ''=''
                  then (case r2 of
                          c3 # r3 \<Rightarrow>
                            if c3 = CHR 0x22 then map_option (AttrContains name) (parseQuoted r3)
                            else None
                        | [] \<Rightarrow> None)
                  else None
              | _ \<Rightarrow> None))"

definition parseSelector :: "string \<Rightarrow> selector option" where
  "parseSelector s =
     (if s = ''*'' then Some Universal
      else (case s of
              [] \<Rightarrow> None
            | c # r \<Rightarrow>
                if c = CHR ''.'' then (if isIdent r then Some (ClassSel r) else None)
                else if c = CHR ''['' then parseAttributeSelector r
                else None))"

definition isSpaceChar :: "char \<Rightarrow> bool" where
  "isSpaceChar c = (let n = (of_char c :: nat) in n = 32 \<or> n = 9 \<or> n = 10 \<or> n = 12 \<or> n = 13)"

text \<open>
  Strings that are not selectors in any grammar: nothing but white space; a first
  character that is a digit; an opening bracket followed by a closing bracket, a digit
  or an equals sign where the attribute name has to stand.
\<close>

definition invalidSelector :: "string \<Rightarrow> bool" where
  "invalidSelector s =
     (case dropWhile isSpaceChar s of
        [] \<Rightarrow> True
      | c # cs \<Rightarrow>
          isDigitChar c \<or>
          (c = CHR ''['' \<and>
           (case dropWhile isSpaceChar cs of
              [] \<Rightarrow> False
            | d # ds \<Rightarrow> d = CHR '']'' \<or> d = CHR ''='' \<or> isDigitChar d)))"

text \<open>The class tokens of an element: its \<open>class\<close> attribute split at white space.\<close>

fun tokens :: "string \<Rightarrow> string list" where
  "tokens [] = []"
| "tokens (c # cs) =
     (if isSpaceChar c then tokens cs
      else (case cs of
              [] \<Rightarrow> [[c]]
            | d # ds \<Rightarrow>
                if isSpaceChar d then [c] # tokens cs
                else (case tokens cs of [] \<Rightarrow> [[c]] | w # ws \<Rightarrow> (c # w) # ws)))"

text \<open>
  Whether an element matches a selector. In a quirks-mode document class names are
  compared without regard to the case of the letters A to Z.
\<close>

fun matches :: "bool \<Rightarrow> selector \<Rightarrow> element \<Rightarrow> bool" where
  "matches quirks Universal el = True"
| "matches quirks (ClassSel c) el =
     (if quirks then toLowerCase c \<in> set (map toLowerCase (tokens (classAttribute el)))
      else c \<in> set (tokens (classAttribute el)))"
| "matches quirks (HasAttr n) el = (getAttribute el n \<noteq> None)"
| "matches quirks (AttrEquals n v) el = (getAttribute el n = Some v)"
| "matches quirks (AttrContains n v) el =
     (case getAttribute el n of None \<Rightarrow> False | Some w \<Rightarrow> v \<noteq> [] \<and> stringIncludes w v)"

definition hostAnswer :: "document \<Rightarrow> string \<Rightarrow> error + element list" where
  "hostAnswer doc s = undefined"

definition querySelectorAll :: "document \<Rightarrow> string \<Rightarrow> error + element list" where
  "querySelectorAll doc s =
     (case parseSelector s of
        Some sel \<Rightarrow> Inr (filter (matches (quirksMode doc) sel) (allElements doc))
      | None \<Rightarrow> if invalidSelector s then Inl SyntaxError else hostAnswer doc s)"

definition querySelector :: "document \<Rightarrow> string \<Rightarrow> error + element option" where
  "querySelector doc s =
     (case querySelectorAll doc s of
        Inl e \<Rightarrow> Inl e
      | Inr [] \<Rightarrow> Inr None
      | Inr (el # els) \<Rightarrow> Inr (Some el))"

section \<open>JavaScript values used by the analyzers\<close>

text \<open>
  A loop whose body can raise: \<open>foldE\<close> leaves at the first exception, which is the
  result; \<open>foldCatch\<close> is the same loop inside a \<open>try\<close> whose \<open>catch\<close> does nothing,
  so the result is the state reached before the exception.
\<close>

fun foldE :: "('s \<Rightarrow> 'a \<Rightarrow> error + 's) \<Rightarrow> 's \<Rightarrow> 'a list \<Rightarrow> error + 's" where
  "foldE f acc [] = Inr acc"
| "foldE f acc (x # xs) = (case f acc x of Inl e \<Rightarrow> Inl e | Inr acc' \<Rightarrow> foldE f acc' xs)"

fun foldCatch :: "('s \<Rightarrow> 'a \<Rightarrow> error + 's) \<Rightarrow> 's \<Rightarrow> 'a list \<Rightarrow> 's" where
  "foldCatch f acc [] = acc"
| "foldCatch f acc (x # xs) = (case f acc x of Inl e \<Rightarrow> acc | Inr acc' \<Rightarrow> foldCatch f acc' xs)"

text \<open>
  \<open>new Set(values)\<close>: the distinct values in the order of their first occurrence;
  \<open>.size\<close> is the length of that list and \<open>.has(v)\<close> is membership.
\<close>

definition setAdd :: "'a list \<Rightarrow> 'a \<Rightarrow> 'a list" where
  "setAdd acc x = (if x \<in> set acc then acc else acc @ [x])"

definition newSet :: "'a list \<Rightarrow> 'a list" where
  "newSet xs = foldl setAdd [] xs"

text \<open>
  Numbers are IEEE 754 doubles. A double is represented by the real number it denotes;
  an arithmetic operation is the exact operation followed by rounding to the nearest
  double, to the one with the even significand on a tie. \<open>ulp x\<close> is the distance
  between neighbouring doubles at \<open>x > 0\<close>: \<open>2 ^ (e - 52)\<close> when
  \<open>2 ^ e \<le> x < 2 ^ (e + 1)\<close>, and \<open>2 ^ -1074\<close> below the normal range; a negative number
  is rounded like its magnitude. Overflow to \<open>Infinity\<close> is not modelled (the
  numbers here stay below 101), and a count is its own double (counts stay below
  \<open>2 ^ 53\<close>).
\<close>

definition roundHalfEven :: "real \<Rightarrow> int" where
  "roundHalfEven y =
     (let f = \<lfloor>y\<rfloor>; d = y - of_int f in
        if d < 1 / 2 then f else if 1 / 2 < d then f + 1 else if even f then f else f + 1)"

fun ulpUp :: "nat \<Rightarrow> real \<Rightarrow> real \<Rightarrow> real" where
  "ulpUp 0 x u = u"
| "ulpUp (Suc n) x u = (if x < 2 then u else ulpUp n (x / 2) (2 * u))"

fun ulpDown :: "nat \<Rightarrow> real \<Rightarrow> real \<Rightarrow> real" where
  "ulpDown 0 x u = u"
| "ulpDown (Suc n) x u = (if 1 / 2 \<le> x then u else ulpDown n (2 * x) (u / 2))"

definition ulp :: "real \<Rightarrow> real" where
  "ulp x = (if 1 \<le> x then ulpUp 1023 x (1 / 2 ^ 52) else ulpDown 1021 x (1 / 2 ^ 53))"

definition roundMagnitude :: "real \<Rightarrow> real" where
  "roundMagnitude x = of_int (roundHalfEven (x / ulp x)) * ulp x"

definition roundDouble :: "real \<Rightarrow> real" where
  "roundDouble x =
     (if x = 0 then 0 else if 0 < x then roundMagnitude x else - roundMagnitude (- x))"

definition doubleDivide :: "real \<Rightarrow> real \<Rightarrow> real" where
  "doubleDivide x y = roundDouble (x / y)"

definition doubleMultiply :: "real \<Rightarrow> real \<Rightarrow> real" where
  "doubleMultiply x y = roundDouble (x * y)"

text \<open>
  \<open>x.toFixed(2)\<close> for a double \<open>0 \<le> x < 10 ^ 21\<close>: the number of hundredths nearest to
  the exact value of \<open>x\<close> (the larger one on a tie), written with exactly two fractional
  digits.
\<close>

definition toFixed2 :: "real \<Rightarrow> string" where
  "toFixed2 x =
     (let n = nat \<lfloor>x * 100 + 1 / 2\<rfloor> in
        stringOfNat (n div 100) @ ''.'' @ [digitChar (n mod 100 div 10), digitChar (n mod 10)])"

text \<open>
  An object created by \<open>{}\<close> is the list of its own properties in the order of
  \<open>Object.keys\<close>: the keys that are array indexes in ascending order, then the other
  keys in the order of their creation. \<open>Object.keys\<close> is \<open>map fst\<close> and
  \<open>Object.values\<close> is \<open>map snd\<close>.
\<close>

type_synonym 'a object = "(string \<times> 'a) list"

text \<open>The members that every such object inherits from \<open>Object.prototype\<close>.\<close>

definition objectPrototypeMembers :: "string list" where
  "objectPrototypeMembers =
     [''constructor'', ''__defineGetter__'', ''__defineSetter__'', ''hasOwnProperty'',
      ''__lookupGetter__'', ''__lookupSetter__'', ''isPrototypeOf'', ''propertyIsEnumerable'',
      ''toString'', ''valueOf'', ''__proto__'', ''toLocaleString'']"

text \<open>
  \<open>obj[k]\<close>: the own value, else the inherited member (a function, or the prototype
  itself for \<open>__proto__\<close>: truthy, not a string), else \<open>undefined\<close>.
\<close>

datatype 'a property = Own 'a | Inherited | Undefined

definition getProperty :: "'a object \<Rightarrow> string \<Rightarrow> 'a property" where
  "getProperty obj k =
     (case map_of obj k of
        Some v \<Rightarrow> Own v
      | None \<Rightarrow> if k \<in> set objectPrototypeMembers then Inherited else Undefined)"

text \<open>
  An array index is the canonical decimal numeral of an integer from 0 to
  \<open>2 ^ 32 - 2\<close>.
\<close>

definition digitValue :: "char \<Rightarrow> nat" where
  "digitValue c = of_char c - 48"

definition indexValue :: "string \<Rightarrow> nat" where
  "indexValue k = foldl (\<lambda>n c. 10 * n + digitValue c) 0 k"

definition isArrayIndex :: "string \<Rightarrow> bool" where
  "isArrayIndex k =
     (case k of
        [] \<Rightarrow> False
      | c # cs \<Rightarrow>
          isDigitChar c \<and> list_all isDigitChar cs \<and> (c = CHR ''0'' \<longrightarrow> cs = [])
          \<and> indexValue k < 2 ^ 32 - 1)"

fun insertIndex :: "string \<Rightarrow> 'a \<Rightarrow> 'a object \<Rightarrow> 'a object" where
  "insertIndex k v [] = [(k, v)]"
| "insertIndex k v ((k', v') # rest) =
     (if isArrayIndex k' \<and> indexValue k' < indexValue k then (k', v') # insertIndex k v rest
      else (k, v) # (k', v') # rest)"

text \<open>
  \<open>obj[k] = v\<close> for a string \<open>v\<close>. The key \<open>__proto__\<close> reaches the inherited setter,
  which ignores a string: no property is created. An existing key keeps its place.
\<close>

definition setProperty :: "string object \<Rightarrow> string \<Rightarrow> string \<Rightarrow> string object" where
  "setProperty obj k v =
     (if k = ''__proto__'' then obj
      else if map_of obj k = None \<and> isArrayIndex k then insertIndex k v obj
      else AList.update k v obj)"

section \<open>Attribute Stability Analyzer (\<open>findStableAttributes\<close>, both variants)\<close>

text \<open>
  The result object and the recommendation objects below have keys from fixed catalogs
  (no array index, no \<open>__proto__\<close>), so \<open>obj[k] = v\<close> is \<open>AList.update k v obj\<close> there.
\<close>

record attribute_stability =
  totalBefore :: nat
  totalAfter :: nat
  commonCount :: nat
  stabilityScore :: string
  stableValues :: "string option list"

definition attributesToCheck :: "string list" where
  "attributesToCheck = [''id'', ''class'', ''data-testid'', ''role'', ''aria-label'', ''name'']"

text \<open>
  The numeric score before formatting, the local constant \<open>stabilityScore\<close>:
  \<open>(commonValues.length / beforeValues.size) * 100\<close> in double arithmetic.
\<close>

definition stabilityScoreValue :: "nat \<Rightarrow> nat \<Rightarrow> real" where
  "stabilityScoreValue commonLength beforeSize =
     (if beforeSize > 0
      then doubleMultiply (doubleDivide (real commonLength) (real beforeSize)) 100
      else 0)"

text \<open>The body of the \<open>forEach\<close> over \<open>attributesToCheck\<close>, for one attribute name.\<close>

definition attributeStability :: "document \<Rightarrow> document \<Rightarrow> string \<Rightarrow> error + attribute_stability" where
  "attributeStability beforeDOM afterDOM attrType =
     (case querySelectorAll beforeDOM (''['' @ attrType @ '']'') of
        Inl e \<Rightarrow> Inl e
      | Inr beforeElements \<Rightarrow>
          (case querySelectorAll afterDOM (''['' @ attrType @ '']'') of
             Inl e \<Rightarrow> Inl e
           | Inr afterElements \<Rightarrow>
               (let beforeValues = newSet (map (\<lambda>el. getAttribute el attrType) beforeElements);
                    afterValues = newSet (map (\<lambda>el. getAttribute el attrType) afterElements);
                    commonValues = filter (\<lambda>v. v \<in> set afterValues) beforeValues
                in Inr \<lparr>totalBefore = length beforeValues,
                        totalAfter = length afterValues,
                        commonCount = length commonValues,
                        stabilityScore =
                          toFixed2 (stabilityScoreValue (length commonValues) (length beforeValues)),
                        stableValues = commonValues\<rparr>)))"

fun stableAttributesLoop ::
  "document \<Rightarrow> document \<Rightarrow> string list \<Rightarrow> attribute_stability object
     \<Rightarrow> error + attribute_stability object" where
  "stableAttributesLoop beforeDOM afterDOM [] stableAttributes = Inr stableAttributes"
| "stableAttributesLoop beforeDOM afterDOM (attrType # rest) stableAttributes =
     (case attributeStability beforeDOM afterDOM attrType of
        Inl e \<Rightarrow> Inl e
      | Inr r \<Rightarrow>
          stableAttributesLoop beforeDOM afterDOM rest (AList.update attrType r stableAttributes))"

definition findStableAttributes :: "document \<Rightarrow> document \<Rightarrow> error + attribute_stability object" where
  "findStableAttributes beforeDOM afterDOM =
     stableAttributesLoop beforeDOM afterDOM attributesToCheck []"

section \<open>Landmark Change Detector (browser variant)\<close>

text \<open>\<open>_getAttributes\<close>: the element's attributes copied into an object.\<close>

definition getAttributes :: "element \<Rightarrow> string object" where
  "getAttributes el = foldl (\<lambda>obj (n, v). setProperty obj n v) [] (attributes el)"

text \<open>\<open>el.parentNode\<close> as an element; the root's parent is the document, not an element.\<close>

definition parentElement :: "element \<Rightarrow> element option" where
  "parentElement el =
     (case ancestors el of
        [] \<Rightarrow> None
      | f # fs \<Rightarrow>
          Some \<lparr>namespaceURI = parentNamespace f, tagName = parentTag f,
                attributes = parentAttributes f,
                childNodes =
                  rev (lefts f)
                    @ [Element (namespaceURI el) (tagName el) (attributes el) (childNodes el)]
                    @ rights f,
                ancestors = fs\<rparr>)"

text \<open>One step of the loop in \<open>_getElementPath\<close>: the segment for one element.\<close>

definition pathSegment :: "element \<Rightarrow> string" where
  "pathSegment el =
     (let selector = toLowerCase (tagName el) in
        if elementId el \<noteq> [] then selector @ ''#'' @ elementId el
        else
          (let siblingIndex =
                 1 + length (filter (\<lambda>sibling. toLowerCase (nodeTag sibling) = selector)
                               (previousElementSiblings el))
           in if previousElementSiblings el \<noteq> [] \<or> nextElementSiblings el \<noteq> []
              then selector @ '':nth-of-type('' @ stringOfNat siblingIndex @ '')''
              else selector))"

function getElementPathLoop :: "element \<Rightarrow> string \<Rightarrow> string" where
  "getElementPathLoop el path =
     (let path' = pathSegment el @ (if path \<noteq> [] then '' > '' @ path else [])
      in case parentElement el of
           None \<Rightarrow> path'
         | Some parent \<Rightarrow> getElementPathLoop parent path')"
  by pat_completeness auto
termination
  by (relation "measure (\<lambda>(el, path). length (ancestors el))")
     (auto simp: parentElement_def split: list.splits)

declare getElementPathLoop.simps [simp del]

definition getElementPath :: "element \<Rightarrow> string" where
  "getElementPath el = getElementPathLoop el []"

record element_metadata =
  metaTagName :: string
  metaAttributes :: "string object"
  metaChildrenCount :: nat
  textContentLength :: nat
  path :: string

definition getElementMetadata :: "element \<Rightarrow> element_metadata" where
  "getElementMetadata el =
     \<lparr>metaTagName = tagName el,
      metaAttributes = getAttributes el,
      metaChildrenCount = childrenCount el,
      textContentLength = length (textContent el),
      path = getElementPath el\<rparr>"

text \<open>
  The result of \<open>_findElementMatchingSelectors\<close>: \<open>{found, selector, element}\<close>, or
  \<open>{found: false}\<close> where \<open>selector\<close> and \<open>element\<close> are \<open>undefined\<close> (\<open>None\<close>).
\<close>

record match_result =
  found :: bool
  selector :: "string option"
  element :: "element_metadata option"

text \<open>
  The \<open>try\<close>/\<open>catch\<close> inside the loop: a selector whose query raises is skipped like
  one that matches nothing.
\<close>

fun findElementMatchingSelectors :: "document \<Rightarrow> string list \<Rightarrow> match_result" where
  "findElementMatchingSelectors doc [] = \<lparr>found = False, selector = None, element = None\<rparr>"
| "findElementMatchingSelectors doc (s # selectors) =
     (case querySelector doc s of
        Inr (Some el) \<Rightarrow>
          \<lparr>found = True, selector = Some s, element = Some (getElementMetadata el)\<rparr>
      | Inr None \<Rightarrow> findElementMatchingSelectors doc selectors
      | Inl err \<Rightarrow> findElementMatchingSelectors doc selectors)"

record critical_element =
  name :: string
  selectors :: "string list"

definition criticalElements :: "critical_element list" where
  \<open>criticalElements =
     [\<lparr>name = ''MESSAGE_LIST'', selectors = [''.ms-List'', ''[role="list"]'', ''[data-list-type]'']\<rparr>,
      \<lparr>name = ''COMPOSE_BUTTON'',
       selectors = [''[aria-label*="New mail"]'', ''[aria-label*="Compose"]'']\<rparr>,
      \<lparr>name = ''FOLDER_TREE'',
       selectors = [''[role="tree"]'', ''.folderPaneTree'', ''[aria-label*="folder pane"]'']\<rparr>,
      \<lparr>name = ''READING_PANE'',
       selectors = [''[aria-label*="Reading Pane"]'', ''.readingPane'',
                    ''[data-app-section="ReadingPane"]'']\<rparr>,
      \<lparr>name = ''RIBBON'',
       selectors = [''.ms-CommandBar'', ''[role="toolbar"]'', ''.commandBarWrapper'']\<rparr>]\<close>

record change_record =
  elementName :: string
  before :: match_result
  after :: match_result
  status :: string

text \<open>
  The body of the \<open>forEach\<close> over \<open>criticalElements\<close>: the records it pushes for one
  landmark (one or none).
\<close>

definition landmarkChange :: "document \<Rightarrow> document \<Rightarrow> critical_element \<Rightarrow> change_record list" where
  "landmarkChange beforeDOM afterDOM el =
     (let beforeResults = findElementMatchingSelectors beforeDOM (selectors el);
          afterResults = findElementMatchingSelectors afterDOM (selectors el)
      in if selector beforeResults \<noteq> selector afterResults
            \<or> (\<not> found beforeResults) \<noteq> (\<not> found afterResults)
         then [\<lparr>elementName = name el, before = beforeResults, after = afterResults,
                 status = (if \<not> found beforeResults then ''added''
                           else if \<not> found afterResults then ''removed'' else ''changed'')\<rparr>]
         else [])"

definition identifyChangedSelectors :: "document \<Rightarrow> document \<Rightarrow> change_record list" where
  "identifyChangedSelectors beforeDOM afterDOM =
     concat (map (landmarkChange beforeDOM afterDOM) criticalElements)"

section \<open>Element Correspondence Matcher (browser variant)\<close>

text \<open>\<open>_hasDataAttribute\<close>.\<close>

definition hasDataAttribute :: "element \<Rightarrow> bool" where
  "hasDataAttribute el = list_ex (\<lambda>(n, v). startsWith n ''data-'') (attributes el)"

text \<open>
  \<open>_calculateTermMatchScore\<close>: one pass over the key terms against the lower-cased
  text, then one pass over the key terms for every attribute value.
\<close>

definition calculateTermMatchScore :: "element \<Rightarrow> string list \<Rightarrow> int" where
  "calculateTermMatchScore el keyTerms =
     (let elementText = toLowerCase (textContent el);
          attrs = getAttributes el;
          score1 = foldl (\<lambda>score term'.
                     if stringIncludes elementText (toLowerCase term') then score + 1 else score)
                   0 keyTerms;
          score2 = foldl (\<lambda>score attrValue.
                     foldl (\<lambda>score term'.
                        if stringIncludes (toLowerCase attrValue) (toLowerCase term')
                        then score + 2 else score)
                       score keyTerms)
                   score1 (map snd attrs)
      in min 5 score2)"

text \<open>\<open>_getRelativePosition\<close>: the number of \<open>previousElementSibling\<close> steps.\<close>

definition getRelativePosition :: "element \<Rightarrow> nat" where
  "getRelativePosition el = length (previousElementSiblings el)"

text \<open>
  The body of the loop over \<open>Object.keys(beforeAttrs)\<close> in \<open>_findMatchingElement\<close>, for
  one own property of \<open>beforeAttrs\<close>: its key \<open>attrName\<close> and its value
  \<open>beforeAttrs[attrName]\<close>. In \<open>afterAttrs[attrName] && beforeAttrs[attrName] && \<dots>\<close>
  \<open>undefined\<close> and the empty string are falsy. When \<open>afterAttrs\<close> has no own property of
  the name and inherits a member of that name, the member is truthy and has no method
  \<open>includes\<close>: the call raises \<open>TypeError\<close>.
\<close>

definition attributeMatchStep :: "string object \<Rightarrow> int \<Rightarrow> string \<times> string \<Rightarrow> error + int" where
  "attributeMatchStep afterAttrs matchScore entry =
     (case entry of
        (attrName, beforeValue) \<Rightarrow>
          (case getProperty afterAttrs attrName of
             Own afterValue \<Rightarrow>
               if afterValue = beforeValue then Inr (matchScore + 2)
               else if afterValue \<noteq> [] \<and> beforeValue \<noteq> [] \<and> stringIncludes afterValue beforeValue
               then Inr (matchScore + 1)
               else Inr matchScore
           | Inherited \<Rightarrow> if beforeValue \<noteq> [] then Inl TypeError else Inr matchScore
           | Undefined \<Rightarrow> Inr matchScore))"

text \<open>The score that the callback in \<open>_findMatchingElement\<close> computes for one candidate.\<close>

definition elementMatchScore :: "element \<Rightarrow> element \<Rightarrow> error + int" where
  "elementMatchScore beforeEl afterEl =
     (let beforeAttrs = getAttributes beforeEl;
          afterAttrs = getAttributes afterEl
      in case foldE (attributeMatchStep afterAttrs) 0 beforeAttrs of
           Inl e \<Rightarrow> Inl e
         | Inr s1 \<Rightarrow>
             (let s2 = (if tagName beforeEl = tagName afterEl then s1 + 1 else s1);
                  s3 = (if getRelativePosition beforeEl = getRelativePosition afterEl
                        then s2 + 2 else s2)
              in Inr s3))"

definition findMatchingElement :: "element \<Rightarrow> element list \<Rightarrow> error + element option" where
  "findMatchingElement beforeEl afterElements =
     (case foldE (\<lambda>(bestMatch, highestScore) afterEl.
                    (case elementMatchScore beforeEl afterEl of
                       Inl e \<Rightarrow> Inl e
                     | Inr matchScore \<Rightarrow>
                         if matchScore > highestScore then Inr (Some afterEl, matchScore)
                         else Inr (bestMatch, highestScore)))
                 (None, 0) afterElements of
        Inl e \<Rightarrow> Inl e
      | Inr (bestMatch, highestScore) \<Rightarrow> Inr bestMatch)"

section \<open>Anchor Recommender (browser variant)\<close>

text \<open>\<open>className.split(' ').filter(c => c)\<close> for a string \<open>className\<close>.\<close>

definition classList :: "string \<Rightarrow> string list" where
  "classList cn = filter (\<lambda>c. c \<noteq> []) (split (CHR '' '') cn)"

definition quoteChar :: char where
  "quoteChar = CHR 0x22"

text \<open>The template \<open>[name="value"]\<close>.\<close>

definition attributeEqualsSelector :: "string \<Rightarrow> string \<Rightarrow> string" where
  "attributeEqualsSelector n v = ''['' @ n @ ''='' @ [quoteChar] @ v @ [quoteChar] @ '']''"

text \<open>
  \<open>_getBestAttributeSelector\<close>. The four parts are tried in the order of the source;
  a part that does not return falls through to the next. The second part calls
  \<open>className.split\<close>, which raises \<open>TypeError\<close> on an SVG element.
\<close>

definition fallbackAttributeSelector :: "element \<Rightarrow> string \<Rightarrow> string option" where
  "fallbackAttributeSelector el attrType =
     (case map_of (getAttributes el) attrType of
        Some v \<Rightarrow> Some (attributeEqualsSelector attrType v)
      | None \<Rightarrow> None)"

definition dataAttributeSelector :: "element \<Rightarrow> string \<Rightarrow> string option" where
  "dataAttributeSelector el attrType =
     (if attrType = ''data-''
      then (case filter (\<lambda>(n, v). startsWith n ''data-'') (attributes el) of
              (n, v) # rest \<Rightarrow> Some (attributeEqualsSelector n v)
            | [] \<Rightarrow> fallbackAttributeSelector el attrType)
      else fallbackAttributeSelector el attrType)"

definition classAttributeSelector :: "element \<Rightarrow> string \<Rightarrow> error + string option" where
  "classAttributeSelector el attrType =
     (if attrType = ''class''
      then (case className el of
              AnimatedString \<Rightarrow> Inl TypeError
            | ClassString cn \<Rightarrow>
                if cn \<noteq> []
                then (case sort_key (\<lambda>c. - int (length c)) (classList cn) of
                        c # rest \<Rightarrow> Inr (Some (''.'' @ c))
                      | [] \<Rightarrow> Inr (dataAttributeSelector el attrType))
                else Inr (dataAttributeSelector el attrType))
      else Inr (dataAttributeSelector el attrType))"

definition getBestAttributeSelector :: "element \<Rightarrow> string \<Rightarrow> error + string option" where
  "getBestAttributeSelector el attrType =
     (if attrType = ''id'' \<and> elementId el \<noteq> [] then Inr (Some (''#'' @ elementId el))
      else classAttributeSelector el attrType)"

text \<open>
  \<open>_generateAdditionalSelectors\<close>. On an SVG element \<open>className\<close> is truthy and
  \<open>className.split\<close> raises \<open>TypeError\<close>. The element children of the parent are the
  previous element siblings, the element itself and the next element siblings; the
  element's index among them is the number of its previous element siblings.
\<close>

definition generateAdditionalSelectors :: "element \<Rightarrow> error + string" where
  "generateAdditionalSelectors el =
     (case className el of
        AnimatedString \<Rightarrow> Inl TypeError
      | ClassString cn \<Rightarrow>
          (let s1 = [toLowerCase (tagName el)];
               s2 = (if cn \<noteq> []
                     then (case classList cn of c # rest \<Rightarrow> s1 @ [''.'' @ c] | [] \<Rightarrow> s1)
                     else s1);
               siblings = map nodeTag (rev (previousElementSiblings el)) @ [tagName el]
                            @ map nodeTag (nextElementSiblings el);
               s3 = (if parentElement el \<noteq> None \<and> length siblings > 1
                     then (let sameTagSiblings = filter (\<lambda>t. t = tagName el) siblings
                           in if length sameTagSiblings > 1
                              then s2 @ ['':nth-child('' @ stringOfNat (getRelativePosition el + 1)
                                           @ '')'']
                              else s2)
                     else s2)
           in Inr (concat s3)))"

record candidate =
  candSelector :: string
  candStabilityScore :: int
  candType :: string

text \<open>
  \<open>_addCandidatesWithRole\<close>: nothing is inside a \<open>try\<close>, so an exception of a pool
  query, of the matcher or of \<open>_generateAdditionalSelectors\<close> leaves the function. The
  result is the \<open>candidates\<close> array after the call.
\<close>

definition roleSelector :: "string \<Rightarrow> string" where
  "roleSelector role = attributeEqualsSelector ''role'' role"

definition roleCandidateStep ::
  "string \<Rightarrow> string list \<Rightarrow> element list \<Rightarrow> candidate list \<Rightarrow> element \<Rightarrow> error + candidate list" where
  "roleCandidateStep role keyTerms afterElements cands beforeEl =
     (let matchScore = calculateTermMatchScore beforeEl keyTerms
      in if matchScore > 0
         then (case findMatchingElement beforeEl afterElements of
                 Inl e \<Rightarrow> Inl e
               | Inr None \<Rightarrow> Inr cands
               | Inr (Some matchingAfterEl) \<Rightarrow>
                   (case generateAdditionalSelectors matchingAfterEl of
                      Inl e \<Rightarrow> Inl e
                    | Inr additional \<Rightarrow>
                        Inr (cands @ [\<lparr>candSelector = roleSelector role @ additional,
                                       candStabilityScore = 85 + matchScore * 5,
                                       candType = ''role-based''\<rparr>])))
         else Inr cands)"

definition addCandidatesWithRole ::
  "document \<Rightarrow> document \<Rightarrow> string \<Rightarrow> string list \<Rightarrow> candidate list \<Rightarrow> error + candidate list" where
  "addCandidatesWithRole beforeDOM afterDOM role keyTerms candidates =
     (case querySelectorAll beforeDOM (roleSelector role) of
        Inl e \<Rightarrow> Inl e
      | Inr beforeElements \<Rightarrow>
          (case querySelectorAll afterDOM (roleSelector role) of
             Inl e \<Rightarrow> Inl e
           | Inr afterElements \<Rightarrow>
               foldE (roleCandidateStep role keyTerms afterElements) candidates beforeElements))"

text \<open>
  \<open>_addCandidatesWithAttribute\<close>: everything is inside one \<open>try\<close>, so a pool query that
  raises leaves \<open>candidates\<close> as it was, and an exception inside the loop ends the loop
  and keeps the candidates pushed before it.
\<close>

definition attributePool :: "document \<Rightarrow> string \<Rightarrow> error + element list" where
  "attributePool doc attrType =
     (if attrType = ''data-''
      then (case querySelectorAll doc ''*'' of
              Inl e \<Rightarrow> Inl e
            | Inr els \<Rightarrow> Inr (filter hasDataAttribute els))
      else querySelectorAll doc (''['' @ attrType @ '']''))"

definition attributeCandidateStep ::
  "string \<Rightarrow> string list \<Rightarrow> int \<Rightarrow> element list \<Rightarrow> candidate list \<Rightarrow> element
     \<Rightarrow> error + candidate list" where
  "attributeCandidateStep attrType keyTerms baseScore afterElements cands beforeEl =
     (let matchScore = calculateTermMatchScore beforeEl keyTerms
      in if matchScore > 0
         then (case findMatchingElement beforeEl afterElements of
                 Inl e \<Rightarrow> Inl e
               | Inr None \<Rightarrow> Inr cands
               | Inr (Some matchingAfterEl) \<Rightarrow>
                   (case getBestAttributeSelector matchingAfterEl attrType of
                      Inl e \<Rightarrow> Inl e
                    | Inr None \<Rightarrow> Inr cands
                    | Inr (Some attrSelector) \<Rightarrow>
                        Inr (cands @ [\<lparr>candSelector = attrSelector,
                                       candStabilityScore = baseScore + matchScore * 3,
                                       candType = attrType @ ''-based''\<rparr>])))
         else Inr cands)"

definition addCandidatesWithAttribute ::
  "document \<Rightarrow> document \<Rightarrow> string \<Rightarrow> string list \<Rightarrow> candidate list \<Rightarrow> int \<Rightarrow> candidate list" where
  "addCandidatesWithAttribute beforeDOM afterDOM attrType keyTerms candidates baseScore =
     (case attributePool beforeDOM attrType of
        Inl e \<Rightarrow> candidates
      | Inr beforeElements \<Rightarrow>
          (case attributePool afterDOM attrType of
             Inl e \<Rightarrow> candidates
           | Inr afterElements \<Rightarrow>
               foldCatch (attributeCandidateStep attrType keyTerms baseScore afterElements)
                 candidates beforeElements))"

definition findStableElementsMatchingFeature ::
  "document \<Rightarrow> document \<Rightarrow> string \<Rightarrow> string list \<Rightarrow> error + candidate list" where
  "findStableElementsMatchingFeature beforeDOM afterDOM role keyTerms =
     (case (if role \<noteq> [] then addCandidatesWithRole beforeDOM afterDOM role keyTerms []
            else Inr []) of
        Inl e \<Rightarrow> Inl e
      | Inr c1 \<Rightarrow>
          (let c2 = addCandidatesWithAttribute beforeDOM afterDOM ''id'' keyTerms c1 90;
               c3 = addCandidatesWithAttribute beforeDOM afterDOM ''data-'' keyTerms c2 85;
               c4 = addCandidatesWithAttribute beforeDOM afterDOM ''class'' keyTerms c3 75
           in Inr c4))"

record feature =
  featureName :: string
  featureRole :: string
  keyTerms :: "string list"

definition criticalFeatures :: "feature list" where
  "criticalFeatures =
     [\<lparr>featureName = ''MessageList'', featureRole = ''list'',
       keyTerms = [''message'', ''inbox'', ''mail'']\<rparr>,
      \<lparr>featureName = ''ComposeButton'', featureRole = ''button'',
       keyTerms = [''compose'', ''new'', ''create'', ''mail'']\<rparr>,
      \<lparr>featureName = ''FolderPane'', featureRole = ''tree'',
       keyTerms = [''folder'', ''navigation'', ''tree'']\<rparr>,
      \<lparr>featureName = ''ReadingPane'', featureRole = ''region'',
       keyTerms = [''reading'', ''content'', ''message'']\<rparr>,
      \<lparr>featureName = ''CommandBar'', featureRole = ''toolbar'',
       keyTerms = [''command'', ''action'', ''toolbar'']\<rparr>]"

text \<open>
  A recommendation; \<open>primarySelector\<close> is \<open>null\<close> and \<open>selectorType\<close> is absent
  (\<open>None\<close>) when there is no candidate.
\<close>

record recommendation =
  primarySelector :: "string option"
  alternativeSelectors :: "string list"
  recStabilityScore :: int
  selectorType :: "string option"
  isReliable :: bool

text \<open>
  The recommendation built from the candidates of one feature.
  \<open>candidates.sort((a, b) => b.stabilityScore - a.stabilityScore)\<close> is a stable sort
  by descending score.
\<close>

definition recommend :: "candidate list \<Rightarrow> recommendation" where
  "recommend candidates =
     (case sort_key (\<lambda>c. - candStabilityScore c) candidates of
        [] \<Rightarrow> \<lparr>primarySelector = None, alternativeSelectors = [], recStabilityScore = 0,
               selectorType = None, isReliable = False\<rparr>
      | c # rest \<Rightarrow>
          \<lparr>primarySelector = Some (candSelector c),
           alternativeSelectors = map candSelector (take 3 rest),
           recStabilityScore = candStabilityScore c,
           selectorType = Some (candType c),
           isReliable = (candStabilityScore c > 85)\<rparr>)"

fun recommendationsLoop ::
  "document \<Rightarrow> document \<Rightarrow> feature list \<Rightarrow> recommendation object \<Rightarrow> error + recommendation object" where
  "recommendationsLoop beforeDOM afterDOM [] recommendations = Inr recommendations"
| "recommendationsLoop beforeDOM afterDOM (f # rest) recommendations =
     (case findStableElementsMatchingFeature beforeDOM afterDOM (featureRole f) (keyTerms f) of
        Inl e \<Rightarrow> Inl e
      | Inr candidates \<Rightarrow>
          recommendationsLoop beforeDOM afterDOM rest
            (AList.update (featureName f) (recommend candidates) recommendations))"

definition generateAnchorRecommendations ::
  "document \<Rightarrow> document \<Rightarrow> error + recommendation object" where
  "generateAnchorRecommendations beforeDOM afterDOM =
     recommendationsLoop beforeDOM afterDOM criticalFeatures []"

record analysis =
  stableAttributes :: "attribute_stability object"
  changedSelectors :: "change_record list"
  recommendedAnchors :: "recommendation object"

text \<open>\<open>analyzeChanges\<close> after parsing: the three analyses in the order of the source.\<close>

definition analyzeChanges :: "document \<Rightarrow> document \<Rightarrow> error + analysis" where
  "analyzeChanges beforeDOM afterDOM =
     (case findStableAttributes beforeDOM afterDOM of
        Inl e \<Rightarrow> Inl e
      | Inr sa \<Rightarrow>
          (let cs = identifyChangedSelectors beforeDOM afterDOM
           in case generateAnchorRecommendations beforeDOM afterDOM of
                Inl e \<Rightarrow> Inl e
              | Inr ra \<Rightarrow>
                  Inr \<lparr>stableAttributes = sa, changedSelectors = cs, recommendedAnchors = ra\<rparr>))"

section \<open>The command-line variant\<close>










section \<open>The specification's formulas\<close>


text \<open>
  The same score with the one-point rule restricted to non-empty before-values.
\<close>

definition amendedMatchScore :: "element \<Rightarrow> element \<Rightarrow> int" where
  "amendedMatchScore beforeEl afterEl =
     2 * int (length (filter (\<lambda>(n, bv). map_of (getAttributes afterEl) n = Some bv)
                        (getAttributes beforeEl)))
     + int (length (filter (\<lambda>(n, bv).
                case map_of (getAttributes afterEl) n of
                  Some av \<Rightarrow> av \<noteq> bv \<and> bv \<noteq> [] \<and> stringIncludes av bv
                | None \<Rightarrow> False)
              (getAttributes beforeEl)))
     + (if tagName beforeEl = tagName afterEl then 1 else 0)
     + (if getRelativePosition beforeEl = getRelativePosition afterEl then 2 else 0)"

text \<open>
  The case in which scoring a candidate raises: the before-element has a non-empty
  attribute whose name is a member of \<open>Object.prototype\<close>, and the candidate has no
  attribute of that name.
\<close>

definition attributeLookupFails :: "element \<Rightarrow> element \<Rightarrow> bool" where
  "attributeLookupFails beforeEl afterEl =
     list_ex (\<lambda>(n, bv). bv \<noteq> [] \<and> n \<in> set objectPrototypeMembers
                 \<and> map_of (getAttributes afterEl) n = None)
       (getAttributes beforeEl)"

text \<open>The choice among candidates none of which raises: the first candidate of the highest
  positive score, if there is one.\<close>

definition bestCandidate :: "element \<Rightarrow> element list \<Rightarrow> element option" where
  "bestCandidate beforeEl afterElements =
     fst (foldl (\<lambda>(best, hi) x. if amendedMatchScore beforeEl x > hi
                                 then (Some x, amendedMatchScore beforeEl x) else (best, hi))
            (None, 0) afterElements)"



text \<open>The status of the opposite direction: \<open>added\<close> and \<open>removed\<close> change places.\<close>

definition swapStatus :: "string \<Rightarrow> string" where
  "swapStatus s = (if s = ''added'' then ''removed'' else if s = ''removed'' then ''added'' else s)"

definition swapChange :: "change_record \<Rightarrow> change_record" where
  "swapChange r =
     \<lparr>elementName = elementName r, before = after r, after = before r,
      status = swapStatus (status r)\<rparr>"

text \<open>The values of an attribute in a tree, as a set.\<close>

definition attributeValues :: "document \<Rightarrow> string \<Rightarrow> string set" where
  "attributeValues doc attrType =
     set (List.map_filter (\<lambda>el. getAttribute el attrType) (allElements doc))"

text \<open>
  A document on which the recommender raises no \<open>TypeError\<close>: no SVG element, and no
  attribute named like a member of \<open>Object.prototype\<close>.
\<close>

definition plainElement :: "element \<Rightarrow> bool" where
  "plainElement el =
     (namespaceURI el \<noteq> Svg
      \<and> \<not> list_ex (\<lambda>(n, v). n \<in> set objectPrototypeMembers) (attributes el))"

definition plainDocument :: "document \<Rightarrow> bool" where
  "plainDocument doc = list_all plainElement (allElements doc)"


section \<open>Example snapshots\<close>

text \<open>
  The document that the parser builds for markup without a document type declaration
  whose body holds the given nodes.
\<close>

definition page :: "node list \<Rightarrow> document" where
  "page body =
     \<lparr>quirksMode = True,
      documentElement =
        Element Html ''HTML'' [] [Element Html ''HEAD'' [] [], Element Html ''BODY'' [] body]\<rparr>"

definition exampleEmpty :: document where
  "exampleEmpty = page []"

definition exampleToolbar :: document where
  "exampleToolbar = page [Element Html ''DIV'' [(''role'', ''toolbar'')] []]"

definition exampleListBefore :: document where
  "exampleListBefore =
     page [Element Html ''DIV'' [(''id'', ''list''), (''role'', ''list'')] [Text ''Inbox'']]"

definition exampleListAfter :: document where
  "exampleListAfter =
     page [Element Html ''DIV'' [(''id'', ''list''), (''role'', ''list''), (''data-testid'', ''list'')]
             [Text ''Inbox'']]"




definition exampleInboxClass :: document where
  "exampleInboxClass = page [Element Html ''DIV'' [(''class'', ''inbox'')] [Text ''x'']]"

definition exampleInboxRole :: document where
  "exampleInboxRole =
     page [Element Html ''DIV'' [(''role'', ''list''), (''aria-label'', ''inbox message mail'')] []]"


definition exampleSvgList :: document where
  "exampleSvgList = page [Element Svg ''svg'' [(''role'', ''list''), (''aria-label'', ''inbox'')] []]"


section \<open>Evaluation lemmas\<close>

lemma toLowerCase_alphabet:
  "toLowerCase ''ABCDEFGHIJKLMNOPQRSTUVWXYZ'' = ''abcdefghijklmnopqrstuvwxyz''"
  "toLowerCase ''abcdefghijklmnopqrstuvwxyz 0123456789-_'' = ''abcdefghijklmnopqrstuvwxyz 0123456789-_''"
  by (simp_all add: toLowerCase_def toLowerChar_def)

lemmas selector_defs = parseSelector_def parseAttributeSelector_def isIdentChar_def isIdent_def
  isDigitChar_def isNameStartChar_def isUpperChar_def isAttributeName_def comparesValues_def
  startsWith_def parseQuoted_def attributeEqualsSelector_def roleSelector_def quoteChar_def

lemmas element_defs = getAttribute_def elementId_def classAttribute_def textContent_def
  childrenCount_def previousElementSiblings_def nextElementSiblings_def parentElement_def
  isSpaceChar_def

lemma quirksMode_page: "quirksMode (page body) = True"
  by (simp add: page_def)

lemmas query_defs = querySelector_def querySelectorAll_def quirksMode_page

lemma parse_landmark_selectors:
  \<open>parseSelector ''.ms-List'' = Some (ClassSel ''ms-List'')\<close>
  \<open>parseSelector ''[role="list"]'' = Some (AttrEquals ''role'' ''list'')\<close>
  \<open>parseSelector ''[data-list-type]'' = Some (HasAttr ''data-list-type'')\<close>
  \<open>parseSelector ''[aria-label*="New mail"]'' = Some (AttrContains ''aria-label'' ''New mail'')\<close>
  \<open>parseSelector ''[aria-label*="Compose"]'' = Some (AttrContains ''aria-label'' ''Compose'')\<close>
  \<open>parseSelector ''[role="tree"]'' = Some (AttrEquals ''role'' ''tree'')\<close>
  \<open>parseSelector ''.folderPaneTree'' = Some (ClassSel ''folderPaneTree'')\<close>
  \<open>parseSelector ''[aria-label*="folder pane"]'' = Some (AttrContains ''aria-label'' ''folder pane'')\<close>
  \<open>parseSelector ''[aria-label*="Reading Pane"]'' = Some (AttrContains ''aria-label'' ''Reading Pane'')\<close>
  \<open>parseSelector ''.readingPane'' = Some (ClassSel ''readingPane'')\<close>
  \<open>parseSelector ''[data-app-section="ReadingPane"]'' =
     Some (AttrEquals ''data-app-section'' ''ReadingPane'')\<close>
  \<open>parseSelector ''.ms-CommandBar'' = Some (ClassSel ''ms-CommandBar'')\<close>
  \<open>parseSelector ''[role="toolbar"]'' = Some (AttrEquals ''role'' ''toolbar'')\<close>
  \<open>parseSelector ''.commandBarWrapper'' = Some (ClassSel ''commandBarWrapper'')\<close>
  by (simp_all add: selector_defs)

lemma parse_attribute_selectors:
  "parseSelector ''[id]'' = Some (HasAttr ''id'')"
  "parseSelector ''[class]'' = Some (HasAttr ''class'')"
  "parseSelector ''[data-testid]'' = Some (HasAttr ''data-testid'')"
  "parseSelector ''[role]'' = Some (HasAttr ''role'')"
  "parseSelector ''[aria-label]'' = Some (HasAttr ''aria-label'')"
  "parseSelector ''[name]'' = Some (HasAttr ''name'')"
  "parseSelector ''*'' = Some Universal"
  by (simp_all add: selector_defs)

lemma parse_role_selectors:
  "parseSelector (roleSelector ''list'') = Some (AttrEquals ''role'' ''list'')"
  "parseSelector (roleSelector ''button'') = Some (AttrEquals ''role'' ''button'')"
  "parseSelector (roleSelector ''tree'') = Some (AttrEquals ''role'' ''tree'')"
  "parseSelector (roleSelector ''region'') = Some (AttrEquals ''role'' ''region'')"
  "parseSelector (roleSelector ''toolbar'') = Some (AttrEquals ''role'' ''toolbar'')"
  by (simp_all add: selector_defs)

lemma elements_page:
  "allElements (page [Element ns t a []]) =
     [\<lparr>namespaceURI = Html, tagName = ''HTML'', attributes = [],
       childNodes = [Element Html ''HEAD'' [] [], Element Html ''BODY'' [] [Element ns t a []]],
       ancestors = []\<rparr>,
      \<lparr>namespaceURI = Html, tagName = ''HEAD'', attributes = [], childNodes = [],
       ancestors = [\<lparr>parentNamespace = Html, parentTag = ''HTML'', parentAttributes = [], lefts = [],
                     rights = [Element Html ''BODY'' [] [Element ns t a []]]\<rparr>]\<rparr>,
      \<lparr>namespaceURI = Html, tagName = ''BODY'', attributes = [], childNodes = [Element ns t a []],
       ancestors = [\<lparr>parentNamespace = Html, parentTag = ''HTML'', parentAttributes = [],
                     lefts = [Element Html ''HEAD'' [] []], rights = []\<rparr>]\<rparr>,
      \<lparr>namespaceURI = ns, tagName = t, attributes = a, childNodes = [],
       ancestors = [\<lparr>parentNamespace = Html, parentTag = ''BODY'', parentAttributes = [], lefts = [], rights = []\<rparr>,
                    \<lparr>parentNamespace = Html, parentTag = ''HTML'', parentAttributes = [],
                     lefts = [Element Html ''HEAD'' [] []], rights = []\<rparr>]\<rparr>]"
  by (simp add: allElements_def page_def)

lemma elements_exampleEmpty:
  "allElements exampleEmpty =
     [\<lparr>namespaceURI = Html, tagName = ''HTML'', attributes = [],
       childNodes = [Element Html ''HEAD'' [] [], Element Html ''BODY'' [] []], ancestors = []\<rparr>,
      \<lparr>namespaceURI = Html, tagName = ''HEAD'', attributes = [], childNodes = [],
       ancestors = [\<lparr>parentNamespace = Html, parentTag = ''HTML'', parentAttributes = [], lefts = [],
                     rights = [Element Html ''BODY'' [] []]\<rparr>]\<rparr>,
      \<lparr>namespaceURI = Html, tagName = ''BODY'', attributes = [], childNodes = [],
       ancestors = [\<lparr>parentNamespace = Html, parentTag = ''HTML'', parentAttributes = [],
                     lefts = [Element Html ''HEAD'' [] []], rights = []\<rparr>]\<rparr>]"
  by (simp add: allElements_def exampleEmpty_def page_def)

section \<open>Landmark Change Detector: classification\<close>

lemma found_iff_selector:
  "found (findElementMatchingSelectors doc ss)
     = (selector (findElementMatchingSelectors doc ss) \<noteq> None)"
  by (induction ss) (auto split: sum.splits option.splits)

text \<open>
  A landmark is found in a tree when one of its selectors matches an element there; the
  selector reported is the first one that does.
\<close>

lemma found_iff_selector_matches:
  "found (findElementMatchingSelectors doc ss)
     \<longleftrightarrow> (\<exists>s \<in> set ss. \<exists>el. querySelector doc s = Inr (Some el))"
  by (induction ss) (auto split: sum.splits option.splits)

lemma selector_is_first_match:
  "selector (findElementMatchingSelectors doc ss)
     = List.find (\<lambda>s. \<exists>el. querySelector doc s = Inr (Some el)) ss"
  by (induction ss) (auto split: sum.splits option.splits)

lemma landmarkChange_cases:
  "landmarkChange b a el =
     (let br = findElementMatchingSelectors b (selectors el);
          ar = findElementMatchingSelectors a (selectors el)
      in if \<not> found br \<and> found ar
         then [\<lparr>elementName = name el, before = br, after = ar, status = ''added''\<rparr>]
         else if found br \<and> \<not> found ar
         then [\<lparr>elementName = name el, before = br, after = ar, status = ''removed''\<rparr>]
         else if found br \<and> found ar \<and> selector br \<noteq> selector ar
         then [\<lparr>elementName = name el, before = br, after = ar, status = ''changed''\<rparr>]
         else [])"
  using found_iff_selector[of b "selectors el"] found_iff_selector[of a "selectors el"]
  by (auto simp: landmarkChange_def Let_def)

lemma landmarkChange_name:
  "r \<in> set (landmarkChange b a el) \<Longrightarrow> elementName r = name el"
  by (auto simp: landmarkChange_def Let_def split: if_splits)

lemma filter_concat_distinct:
  assumes "distinct (map key xs)" "x \<in> set xs"
    and "\<And>y r. r \<in> set (f y) \<Longrightarrow> tag r = key y"
  shows "filter (\<lambda>r. tag r = key x) (concat (map f xs)) = f x"
  using assms(1,2)
proof (induction xs)
  case Nil
  then show ?case by simp
next
  case (Cons y ys)
  have all: "\<And>z. filter (\<lambda>r. tag r = key x) (f z) = (if key z = key x then f z else [])"
    using assms(3) by (auto simp: filter_empty_conv filter_id_conv)
  show ?case
  proof (cases "x = y")
    case True
    have "key z \<noteq> key x" if "z \<in> set ys" for z
      using Cons.prems True that by (auto simp: image_iff)
    then have "filter (\<lambda>r. tag r = key x) (concat (map f ys)) = []"
      using assms(3) by (auto simp: filter_empty_conv)
    then show ?thesis using True all by simp
  next
    case False
    then have "x \<in> set ys" using Cons.prems by simp
    moreover have "key y \<noteq> key x" using Cons.prems \<open>x \<in> set ys\<close> by auto
    ultimately show ?thesis using Cons all by simp
  qed
qed

lemma distinct_landmark_names: "distinct (map name criticalElements)"
  by (simp add: criticalElements_def)

text \<open>
  C4. For every pair of trees and every landmark of the catalog, the records that
  \<open>identifyChangedSelectors\<close> emits for the landmark are: one record \<open>added\<close> when the
  landmark is not found before and found after; one record \<open>removed\<close> when it is found
  before and not after; one record \<open>changed\<close> when it is found in both through different
  selectors; and no record otherwise (found in both through the same selector, or found
  in neither). The four cases exclude each other, so each kind is emitted exactly in its
  case.
\<close>

theorem landmark_change_kind:
  assumes "el \<in> set criticalElements"
  shows "filter (\<lambda>r. elementName r = name el) (identifyChangedSelectors beforeDOM afterDOM) =
     (let br = findElementMatchingSelectors beforeDOM (selectors el);
          ar = findElementMatchingSelectors afterDOM (selectors el)
      in if \<not> found br \<and> found ar
         then [\<lparr>elementName = name el, before = br, after = ar, status = ''added''\<rparr>]
         else if found br \<and> \<not> found ar
         then [\<lparr>elementName = name el, before = br, after = ar, status = ''removed''\<rparr>]
         else if found br \<and> found ar \<and> selector br \<noteq> selector ar
         then [\<lparr>elementName = name el, before = br, after = ar, status = ''changed''\<rparr>]
         else [])"
proof -
  have "filter (\<lambda>r. elementName r = name el) (identifyChangedSelectors beforeDOM afterDOM)
          = landmarkChange beforeDOM afterDOM el"
    unfolding identifyChangedSelectors_def
    by (rule filter_concat_distinct[OF distinct_landmark_names assms]) (rule landmarkChange_name)
  then show ?thesis by (simp only: landmarkChange_cases)
qed

lemma ribbon_in_toolbar:
  "found (findElementMatchingSelectors exampleToolbar (selectors (criticalElements ! 4)))"
  by (simp add: criticalElements_def exampleToolbar_def elements_page parse_landmark_selectors
        query_defs element_defs)

lemma ribbon_not_in_empty:
  "\<not> found (findElementMatchingSelectors exampleEmpty (selectors (criticalElements ! 4)))"
  by (simp add: criticalElements_def elements_exampleEmpty parse_landmark_selectors
        query_defs element_defs)

theorem landmark_change_kind_witness:
  "criticalElements ! 4 \<in> set criticalElements \<and>
   map status (filter (\<lambda>r. elementName r = name (criticalElements ! 4))
                 (identifyChangedSelectors exampleToolbar exampleEmpty)) = [''removed'']"
proof -
  have h: "criticalElements ! 4 \<in> set criticalElements"
    by (simp add: criticalElements_def)
  show ?thesis
    using landmark_change_kind[OF h, of exampleToolbar exampleEmpty] h
      ribbon_in_toolbar ribbon_not_in_empty
    by (simp add: Let_def)
qed

section \<open>Landmark Change Detector: symmetry\<close>

lemma landmarkChange_swap:
  "landmarkChange a b el = map swapChange (landmarkChange b a el)"
  by (simp add: landmarkChange_cases Let_def swapChange_def swapStatus_def)

text \<open>
  C9. Comparing in the opposite direction gives the same records with \<open>before\<close> and
  \<open>after\<close> exchanged and the status swapped: a landmark \<open>added\<close> from A to B is
  \<open>removed\<close> from B to A and the reverse, and a landmark \<open>changed\<close> in one direction is
  \<open>changed\<close> in the other.
\<close>

theorem change_classification_symmetric:
  "identifyChangedSelectors a b = map swapChange (identifyChangedSelectors b a)"
proof -
  have "landmarkChange a b = (\<lambda>el. map swapChange (landmarkChange b a el))"
    by (rule ext) (rule landmarkChange_swap)
  then show ?thesis
    by (simp add: identifyChangedSelectors_def map_concat comp_def)
qed

lemma toolbar_removed:
  "map status (identifyChangedSelectors exampleToolbar exampleEmpty) = [''removed'']"
  by (simp add: identifyChangedSelectors_def landmarkChange_def criticalElements_def
        exampleToolbar_def elements_page elements_exampleEmpty parse_landmark_selectors
        query_defs element_defs Let_def)

theorem change_classification_symmetric_witness:
  "map status (identifyChangedSelectors exampleToolbar exampleEmpty) = [''removed''] \<and>
   map status (identifyChangedSelectors exampleEmpty exampleToolbar) = [''added'']"
  using change_classification_symmetric[of exampleEmpty exampleToolbar] toolbar_removed
  by (auto simp: swapChange_def swapStatus_def)

section \<open>Attribute Stability Analyzer\<close>

lemma set_foldl_setAdd: "set (foldl setAdd acc xs) = set acc \<union> set xs"
  by (induction xs arbitrary: acc) (auto simp: setAdd_def)

lemma distinct_foldl_setAdd: "distinct acc \<Longrightarrow> distinct (foldl setAdd acc xs)"
  by (induction xs arbitrary: acc) (auto simp: setAdd_def)

lemma set_newSet: "set (newSet xs) = set xs"
  by (simp add: newSet_def set_foldl_setAdd)

lemma distinct_newSet: "distinct (newSet xs)"
  by (simp add: newSet_def distinct_foldl_setAdd)

lemma length_newSet: "length (newSet xs) = card (set xs)"
  using distinct_card[OF distinct_newSet, of xs] by (simp add: set_newSet)

lemma attribute_query:
  assumes "attrType \<in> set attributesToCheck"
  shows "querySelectorAll doc (''['' @ attrType @ '']'')
           = Inr (filter (\<lambda>el. getAttribute el attrType \<noteq> None) (allElements doc))"
proof -
  have "parseSelector (''['' @ attrType @ '']'') = Some (HasAttr attrType)"
    using assms by (auto simp: attributesToCheck_def parse_attribute_selectors)
  moreover have "matches q (HasAttr attrType) = (\<lambda>el. getAttribute el attrType \<noteq> None)" for q
    by (rule ext) simp
  ultimately show ?thesis by (simp add: querySelectorAll_def)
qed

lemma attributeValues_iff:
  "v \<in> attributeValues doc attrType
     \<longleftrightarrow> (\<exists>el \<in> set (allElements doc). getAttribute el attrType = Some v)"
  by (force simp: attributeValues_def map_filter_def image_iff)

lemma set_selected_values:
  "set (map (\<lambda>el. getAttribute el attrType)
          (filter (\<lambda>el. getAttribute el attrType \<noteq> None) (allElements doc)))
     = Some ` attributeValues doc attrType"
proof (rule set_eqI)
  fix x
  show "x \<in> set (map (\<lambda>el. getAttribute el attrType)
          (filter (\<lambda>el. getAttribute el attrType \<noteq> None) (allElements doc)))
     \<longleftrightarrow> x \<in> Some ` attributeValues doc attrType"
    by (cases x) (auto simp: attributeValues_iff image_iff)
qed

lemma finite_attributeValues: "finite (attributeValues doc attrType)"
  by (simp add: attributeValues_def)

lemma card_Some_image: "card (Some ` A) = card A"
  by (simp add: card_image)

lemma attributeStability_eq:
  assumes "attrType \<in> set attributesToCheck"
  shows "\<exists>r. attributeStability beforeDOM afterDOM attrType = Inr r
           \<and> totalBefore r = card (attributeValues beforeDOM attrType)
           \<and> totalAfter r = card (attributeValues afterDOM attrType)
           \<and> commonCount r
                = card (attributeValues beforeDOM attrType \<inter> attributeValues afterDOM attrType)
           \<and> set (stableValues r)
                = Some ` (attributeValues beforeDOM attrType \<inter> attributeValues afterDOM attrType)
           \<and> stabilityScore r = toFixed2 (stabilityScoreValue (commonCount r) (totalBefore r))"
proof -
  define bv where "bv = newSet (map (\<lambda>el. getAttribute el attrType)
      (filter (\<lambda>el. getAttribute el attrType \<noteq> None) (allElements beforeDOM)))"
  define av where "av = newSet (map (\<lambda>el. getAttribute el attrType)
      (filter (\<lambda>el. getAttribute el attrType \<noteq> None) (allElements afterDOM)))"
  define cv where "cv = filter (\<lambda>v. v \<in> set av) bv"
  have sb: "set bv = Some ` attributeValues beforeDOM attrType"
    unfolding bv_def set_newSet by (rule set_selected_values)
  have sa: "set av = Some ` attributeValues afterDOM attrType"
    unfolding av_def set_newSet by (rule set_selected_values)
  have lb: "length bv = card (attributeValues beforeDOM attrType)"
    unfolding bv_def length_newSet set_selected_values by (rule card_Some_image)
  have la: "length av = card (attributeValues afterDOM attrType)"
    unfolding av_def length_newSet set_selected_values by (rule card_Some_image)
  have sc: "set cv = Some ` (attributeValues beforeDOM attrType \<inter> attributeValues afterDOM attrType)"
    using sb sa by (auto simp: cv_def)
  have "distinct cv" by (simp add: cv_def bv_def distinct_newSet)
  then have "length cv = card (set cv)" by (simp add: distinct_card)
  then have lc: "length cv
      = card (attributeValues beforeDOM attrType \<inter> attributeValues afterDOM attrType)"
    by (simp only: sc card_Some_image)
  have "attributeStability beforeDOM afterDOM attrType =
      Inr \<lparr>totalBefore = length bv, totalAfter = length av, commonCount = length cv,
           stabilityScore = toFixed2 (stabilityScoreValue (length cv) (length bv)),
           stableValues = cv\<rparr>"
    unfolding attributeStability_def attribute_query[OF assms] bv_def av_def cv_def
    by (simp add: Let_def)
  then show ?thesis using lb la lc sc by simp
qed

lemma stableAttributesLoop_eq:
  assumes "\<And>t. t \<in> set ts \<Longrightarrow> \<exists>r. attributeStability beforeDOM afterDOM t = Inr r"
  shows "\<exists>result. stableAttributesLoop beforeDOM afterDOM ts acc = Inr result
           \<and> (\<forall>k. map_of result k
                  = (if k \<in> set ts then Some (projr (attributeStability beforeDOM afterDOM k))
                     else map_of acc k))"
  using assms
proof (induction ts arbitrary: acc)
  case Nil
  then show ?case by simp
next
  case (Cons t ts)
  obtain r where r: "attributeStability beforeDOM afterDOM t = Inr r"
    using Cons.prems[of t] by auto
  obtain result where res:
      "stableAttributesLoop beforeDOM afterDOM ts (AList.update t r acc) = Inr result"
      "\<And>k. map_of result k
         = (if k \<in> set ts then Some (projr (attributeStability beforeDOM afterDOM k))
            else map_of (AList.update t r acc) k)"
    using Cons.IH[of "AList.update t r acc"] Cons.prems by auto
  show ?case using r res by (auto simp: update_conv')
qed

lemma findStableAttributes_record:
  assumes "attrType \<in> set attributesToCheck"
  shows "\<exists>result r. findStableAttributes beforeDOM afterDOM = Inr result
           \<and> map_of result attrType = Some r
           \<and> attributeStability beforeDOM afterDOM attrType = Inr r"
proof -
  have all: "\<exists>r. attributeStability beforeDOM afterDOM t = Inr r"
    if "t \<in> set attributesToCheck" for t
    using attributeStability_eq[OF that, of beforeDOM afterDOM] by blast
  obtain r where r: "attributeStability beforeDOM afterDOM attrType = Inr r"
    using all[OF assms] by blast
  obtain result where "findStableAttributes beforeDOM afterDOM = Inr result"
      "map_of result attrType = Some (projr (attributeStability beforeDOM afterDOM attrType))"
    using stableAttributesLoop_eq[of attributesToCheck beforeDOM afterDOM "[]"] all assms
    unfolding findStableAttributes_def by auto
  then show ?thesis using r by simp
qed

section \<open>Double arithmetic\<close>

lemma ulpUp_unfold:
  "ulpUp n x u = (if n = 0 then u else if x < 2 then u else ulpUp (n - 1) (x / 2) (2 * u))"
  by (cases n) simp_all

lemma ulpDown_unfold:
  "ulpDown n x u = (if n = 0 then u else if 1 / 2 \<le> x then u else ulpDown (n - 1) (2 * x) (u / 2))"
  by (cases n) simp_all

lemma ulpDown_shape: "\<exists>k. ulpDown n x u = u / 2 ^ k"
proof (induction n arbitrary: x u)
  case 0
  show ?case by (rule exI[of _ 0]) simp
next
  case (Suc n)
  show ?case
  proof (cases "1 / 2 \<le> x")
    case True
    then show ?thesis by (intro exI[of _ 0]) simp
  next
    case False
    obtain k where "ulpDown n (2 * x) (u / 2) = u / 2 / 2 ^ k"
      using Suc[of "2 * x" "u / 2"] by blast
    then have "ulpDown (Suc n) x u = u / 2 ^ Suc k"
      using False by simp
    then show ?thesis by blast
  qed
qed

lemma ulpUp_shape: "1 \<le> x \<Longrightarrow> \<exists>k. ulpUp n x u = u * 2 ^ k \<and> 2 ^ k \<le> x"
proof (induction n arbitrary: x u)
  case 0
  then show ?case by (intro exI[of _ 0]) simp
next
  case (Suc n)
  show ?case
  proof (cases "x < 2")
    case True
    then show ?thesis using Suc.prems by (intro exI[of _ 0]) simp
  next
    case False
    then have "1 \<le> x / 2" by simp
    then obtain k where k: "ulpUp n (x / 2) (2 * u) = 2 * u * 2 ^ k" "2 ^ k \<le> x / 2"
      using Suc.IH[of "x / 2" "2 * u"] by blast
    have "ulpUp (Suc n) x u = u * 2 ^ Suc k \<and> 2 ^ Suc k \<le> x"
      using False k by simp
    then show ?thesis by blast
  qed
qed

text \<open>The two shapes of \<open>ulp\<close>: a power of two times \<open>2 ^ -52\<close>, or \<open>2 ^ -53\<close> over one.\<close>

lemma ulp_cases:
  obtains (up) k where "1 \<le> x" and "ulp x = 1 / 2 ^ 52 * 2 ^ k" and "(2::real) ^ k \<le> x"
  | (down) k where "x < 1" and "ulp x = 1 / 2 ^ 53 / 2 ^ k"
proof (cases "1 \<le> x")
  case True
  then obtain k where "ulpUp 1023 x (1 / 2 ^ 52) = 1 / 2 ^ 52 * 2 ^ k" "(2::real) ^ k \<le> x"
    using ulpUp_shape[of x 1023 "1 / 2 ^ 52"] by blast
  moreover from this(1) have "ulp x = 1 / 2 ^ 52 * 2 ^ k"
    using True by (simp only: ulp_def if_True)
  ultimately show ?thesis using True up by blast
next
  case False
  obtain k where "ulpDown 1021 x (1 / 2 ^ 53) = 1 / 2 ^ 53 / 2 ^ k"
    using ulpDown_shape[of 1021 x "1 / 2 ^ 53"] by blast
  then have "ulp x = 1 / 2 ^ 53 / 2 ^ k"
    using False by (simp only: ulp_def if_False)
  then show ?thesis using False down by simp
qed

lemma ulp_pos: "0 < ulp x"
proof (cases x rule: ulp_cases)
  case (up k)
  have "0 < (1::real) / 2 ^ 52 * 2 ^ k" by simp
  then show ?thesis using up(2) by (simp only:)
next
  case (down k)
  have "0 < (1::real) / 2 ^ 53 / 2 ^ k" by simp
  then show ?thesis using down(2) by (simp only:)
qed

lemma roundHalfEven_of_int: "roundHalfEven (of_int K) = K"
  by (simp add: roundHalfEven_def)

lemma roundHalfEven_le: "y \<le> of_int K \<Longrightarrow> roundHalfEven y \<le> K"
proof -
  assume y: "y \<le> of_int K"
  have f: "\<lfloor>y\<rfloor> \<le> K" using y by (simp add: floor_le_iff)
  show ?thesis
  proof (cases "y - of_int \<lfloor>y\<rfloor> < 1 / 2")
    case True
    then show ?thesis using f by (simp add: roundHalfEven_def)
  next
    case False
    then have "of_int \<lfloor>y\<rfloor> < y" by linarith
    then have "\<lfloor>y\<rfloor> < K" using y by linarith
    then show ?thesis by (auto simp: roundHalfEven_def Let_def)
  qed
qed

lemma roundHalfEven_nonneg: "0 \<le> y \<Longrightarrow> 0 \<le> roundHalfEven y"
  by (auto simp: roundHalfEven_def Let_def)


lemma roundMagnitude_nonneg: "0 \<le> x \<Longrightarrow> 0 \<le> roundMagnitude x"
  using ulp_pos[of x] roundHalfEven_nonneg[of "x / ulp x"]
  by (simp add: roundMagnitude_def)

lemma roundDouble_nonneg: "0 \<le> x \<Longrightarrow> 0 \<le> roundDouble x"
  by (simp add: roundDouble_def roundMagnitude_nonneg)


lemma roundDouble_le:
  assumes "x \<le> M" and "\<exists>K. M / ulp x = of_int K" and "0 \<le> M"
  shows "roundDouble x \<le> M"
proof (cases "x \<le> 0")
  case True
  then have "0 \<le> roundMagnitude (- x)"
    by (intro roundMagnitude_nonneg) simp
  then show ?thesis using True assms(3) by (simp add: roundDouble_def)
next
  case False
  obtain K where K: "M / ulp x = of_int K" using assms(2) by blast
  have "x / ulp x \<le> of_int K"
    using assms(1) ulp_pos[of x] K by (simp add: divide_right_mono flip: K)
  then have "roundHalfEven (x / ulp x) \<le> K" by (rule roundHalfEven_le)
  then have "of_int (roundHalfEven (x / ulp x)) * ulp x \<le> of_int K * ulp x"
    using ulp_pos[of x] by (simp add: mult_right_mono)
  also have "of_int K * ulp x = M"
    using K ulp_pos[of x] by (simp add: field_simps flip: K)
  finally show ?thesis using False by (simp add: roundDouble_def roundMagnitude_def)
qed

lemma ulp_one: "ulp 1 = 1 / 2 ^ 52"
  by (simp add: ulp_def ulpUp_unfold)

lemma ulp_le_one:
  assumes "x \<le> 1"
  shows "ulp x \<le> 1 / 2 ^ 52" and "\<exists>K. 1 / ulp x = of_int K"
proof -
  show "ulp x \<le> 1 / 2 ^ 52"
  proof (cases x rule: ulp_cases)
    case (up k)
    then have "x = 1" using assms by simp
    then show ?thesis by (simp add: ulp_one)
  next
    case (down k)
    have "(1::real) / 2 ^ 53 / 2 ^ k \<le> 1 / 2 ^ 53"
      by (simp add: field_simps)
    also have "\<dots> \<le> 1 / 2 ^ 52" by simp
    finally show ?thesis using down(2) by (simp only:)
  qed
  show "\<exists>K. 1 / ulp x = of_int K"
  proof (cases x rule: ulp_cases)
    case (up k)
    then have "x = 1" using assms by simp
    then have "1 / ulp x = of_int (2 ^ 52)"
      by (simp only: ulp_one) simp
    then show ?thesis by blast
  next
    case (down k)
    have "1 / ((1::real) / 2 ^ 53 / 2 ^ k) = of_int (2 ^ 53 * 2 ^ k)"
      by simp
    then have "1 / ulp x = of_int (2 ^ 53 * 2 ^ k)"
      using down(2) by (simp only:)
    then show ?thesis by blast
  qed
qed

lemma scaled_quotient:
  fixes a b u :: real
  assumes "b \<noteq> 0" and "a \<noteq> 0" and "u = 1 / (a * b) * b"
  shows "100 / u = 100 * a" and "u = 1 / a"
proof -
  show "u = 1 / a" using assms by simp
  then show "100 / u = 100 * a" by simp
qed

lemma ulp_le_hundred:
  assumes "x \<le> 100"
  shows "ulp x \<le> 1 / 2 ^ 46" and "\<exists>K. 100 / ulp x = of_int K"
proof -
  have both: "ulp x \<le> 1 / 2 ^ 46 \<and> (\<exists>K. 100 / ulp x = of_int K)"
  proof (cases x rule: ulp_cases)
    case (up k)
    have "(2::real) ^ k < 2 ^ 7" using up(3) assms by simp
    then have k7: "k < 7" by (simp only: power_strict_increasing_iff[of "2::real"])
    then have "k \<le> 52" by simp
    then have "(2::real) ^ 52 = 2 ^ (52 - k) * 2 ^ k"
      by (simp flip: power_add)
    then have "ulp x = 1 / (2 ^ (52 - k) * 2 ^ k) * 2 ^ k"
      using up(2) by (simp only:)
    then have q: "100 / ulp x = 100 * 2 ^ (52 - k)" and r: "ulp x = 1 / 2 ^ (52 - k)"
      by (intro scaled_quotient[where b = "2 ^ k"]; simp)+
    have "(2::real) ^ 46 \<le> 2 ^ (52 - k)"
      using k7 by (intro power_increasing) simp_all
    then have "ulp x \<le> 1 / 2 ^ 46"
      unfolding r by (simp only: frac_le zero_less_power zero_less_numeral zero_le_one)
    moreover have "100 / ulp x = of_int (100 * 2 ^ (52 - k))"
      using q by simp
    ultimately show ?thesis by blast
  next
    case (down k)
    have "(1::real) / 2 ^ 53 / 2 ^ k \<le> 1 / 2 ^ 53"
      by (simp add: field_simps)
    also have "\<dots> \<le> 1 / 2 ^ 46" by simp
    finally have "ulp x \<le> 1 / 2 ^ 46" using down(2) by (simp only:)
    moreover have "100 / ((1::real) / 2 ^ 53 / 2 ^ k) = of_int (100 * 2 ^ 53 * 2 ^ k)"
      by simp
    then have "100 / ulp x = of_int (100 * 2 ^ 53 * 2 ^ k)"
      using down(2) by (simp only:)
    ultimately show ?thesis by blast
  qed
  show "ulp x \<le> 1 / 2 ^ 46" using both by blast
  show "\<exists>K. 100 / ulp x = of_int K" using both by blast
qed

lemma roundDouble_le_1: "x \<le> 1 \<Longrightarrow> roundDouble x \<le> 1"
  by (rule roundDouble_le) (simp_all add: ulp_le_one(2))

lemma roundDouble_le_100: "x \<le> 100 \<Longrightarrow> roundDouble x \<le> 100"
  by (rule roundDouble_le) (simp_all add: ulp_le_hundred(2))




lemma stabilityScoreValue_bounds:
  assumes "c \<le> b"
  shows "0 \<le> stabilityScoreValue c b" and "stabilityScoreValue c b \<le> 100"
proof -
  show "0 \<le> stabilityScoreValue c b"
    by (simp add: stabilityScoreValue_def doubleMultiply_def doubleDivide_def roundDouble_nonneg)
  have "real c / real b \<le> 1" if "0 < b"
    using assms that by simp
  then have "roundDouble (real c / real b) \<le> 1" if "0 < b"
    using that by (intro roundDouble_le_1) simp
  then have "roundDouble (real c / real b) * 100 \<le> 100" if "0 < b"
    using that by simp
  then have "roundDouble (roundDouble (real c / real b) * 100) \<le> 100" if "0 < b"
    using that by (intro roundDouble_le_100) simp
  then show "stabilityScoreValue c b \<le> 100"
    by (simp add: stabilityScoreValue_def doubleMultiply_def doubleDivide_def)
qed


text \<open>
  Where the rounding shows: 23 common values of 160 give the double
  14.374999999999998\<dots>, written \<open>14.37\<close>; the exact 14.375 would be written \<open>14.38\<close>.
\<close>

lemma doubleDivide_23_160: "doubleDivide 23 160 = 5179139571476070 / 2 ^ 55"
  by (simp add: doubleDivide_def roundDouble_def roundMagnitude_def ulp_def ulpDown_unfold
        roundHalfEven_def)

lemma stabilityScoreValue_23_160: "stabilityScoreValue 23 160 = 8092405580431359 / 2 ^ 49"
  by (simp add: stabilityScoreValue_def doubleDivide_23_160 doubleMultiply_def roundDouble_def
        roundMagnitude_def ulp_def ulpUp_unfold roundHalfEven_def)

lemma rounding_example:
  "toFixed2 (stabilityScoreValue 23 160) = ''14.37''"
  "toFixed2 (real 23 / real 160 * 100) = ''14.38''"
  by (simp_all add: stabilityScoreValue_23_160 toFixed2_def stringOfNat.simps digitChar_def)

section \<open>Attribute Stability Analyzer: scores\<close>




lemma elements_page_text:
  "allElements (page [Element ns t a [Text s]]) =
     [\<lparr>namespaceURI = Html, tagName = ''HTML'', attributes = [],
       childNodes = [Element Html ''HEAD'' [] [], Element Html ''BODY'' [] [Element ns t a [Text s]]],
       ancestors = []\<rparr>,
      \<lparr>namespaceURI = Html, tagName = ''HEAD'', attributes = [], childNodes = [],
       ancestors = [\<lparr>parentNamespace = Html, parentTag = ''HTML'', parentAttributes = [], lefts = [],
                     rights = [Element Html ''BODY'' [] [Element ns t a [Text s]]]\<rparr>]\<rparr>,
      \<lparr>namespaceURI = Html, tagName = ''BODY'', attributes = [], childNodes = [Element ns t a [Text s]],
       ancestors = [\<lparr>parentNamespace = Html, parentTag = ''HTML'', parentAttributes = [],
                     lefts = [Element Html ''HEAD'' [] []], rights = []\<rparr>]\<rparr>,
      \<lparr>namespaceURI = ns, tagName = t, attributes = a, childNodes = [Text s],
       ancestors = [\<lparr>parentNamespace = Html, parentTag = ''BODY'', parentAttributes = [], lefts = [], rights = []\<rparr>,
                    \<lparr>parentNamespace = Html, parentTag = ''HTML'', parentAttributes = [],
                     lefts = [Element Html ''HEAD'' [] []], rights = []\<rparr>]\<rparr>]"
  by (simp add: allElements_def page_def)




text \<open>
  C8. For every pair of trees and every attribute name of the catalog, the score of the
  record lies between 0 and 100, and \<open>commonCount\<close> is at most \<open>totalBefore\<close> and at
  most \<open>totalAfter\<close>.
\<close>

theorem stable_attributes_bounds:
  assumes "attrType \<in> set attributesToCheck"
  shows "\<exists>result r. findStableAttributes beforeDOM afterDOM = Inr result
           \<and> map_of result attrType = Some r
           \<and> stabilityScore r = toFixed2 (stabilityScoreValue (commonCount r) (totalBefore r))
           \<and> 0 \<le> stabilityScoreValue (commonCount r) (totalBefore r)
           \<and> stabilityScoreValue (commonCount r) (totalBefore r) \<le> 100
           \<and> commonCount r \<le> min (totalBefore r) (totalAfter r)"
proof -
  obtain result r where res: "findStableAttributes beforeDOM afterDOM = Inr result"
      "map_of result attrType = Some r"
      "attributeStability beforeDOM afterDOM attrType = Inr r"
    using findStableAttributes_record[OF assms] by blast
  from attributeStability_eq[OF assms, of beforeDOM afterDOM] res(3)
  have facts: "totalBefore r = card (attributeValues beforeDOM attrType)"
      "totalAfter r = card (attributeValues afterDOM attrType)"
      "commonCount r
         = card (attributeValues beforeDOM attrType \<inter> attributeValues afterDOM attrType)"
      "stabilityScore r = toFixed2 (stabilityScoreValue (commonCount r) (totalBefore r))"
    by auto
  have cb: "commonCount r \<le> totalBefore r"
    unfolding facts by (rule card_mono[OF finite_attributeValues]) simp
  have ca: "commonCount r \<le> totalAfter r"
    unfolding facts by (rule card_mono[OF finite_attributeValues]) simp
  show ?thesis
    using res(1,2) facts(4) stabilityScoreValue_bounds[OF cb] cb ca by auto
qed

theorem stable_attributes_bounds_witness:
  "''id'' \<in> set attributesToCheck \<and>
   (\<exists>result r. findStableAttributes exampleListBefore exampleListAfter = Inr result
       \<and> map_of result ''id'' = Some r
       \<and> stabilityScoreValue (commonCount r) (totalBefore r) \<le> 100
       \<and> commonCount r \<le> min (totalBefore r) (totalAfter r))"
proof -
  have h: "''id'' \<in> set attributesToCheck"
    by (simp add: attributesToCheck_def)
  show ?thesis
    using stable_attributes_bounds[OF h, of exampleListBefore exampleListAfter] h by blast
qed






section \<open>Objects built from attributes\<close>

lemma set_insertIndex: "set (insertIndex k v obj) = insert (k, v) (set obj)"
  by (induction obj) (auto split: if_splits)



lemma keys_setProperty: "fst ` set (setProperty obj k v) \<subseteq> insert k (fst ` set obj)"
  by (auto simp: setProperty_def set_insertIndex dom_update image_iff
        dest!: set_update_subset_insert[THEN subsetD])

lemma keys_foldl_setProperty:
  "fst ` set (foldl (\<lambda>obj (n, v). setProperty obj n v) acc xs) \<subseteq> fst ` set acc \<union> fst ` set xs"
proof (induction xs arbitrary: acc)
  case Nil
  then show ?case by simp
next
  case (Cons x xs)
  obtain n v where x: "x = (n, v)" by (cases x)
  show ?case
    using Cons[of "setProperty acc n v"] keys_setProperty[of acc n v]
    unfolding x by (simp add: subset_iff) blast
qed

lemma keys_getAttributes: "fst ` set (getAttributes el) \<subseteq> fst ` set (attributes el)"
  using keys_foldl_setProperty[of "[]" "attributes el"] by (simp add: getAttributes_def)





section \<open>Loops that can raise\<close>

lemma foldE_split:
  assumes "\<And>acc x. f acc x = (if bad x then Inl e else Inr (g acc x))"
  shows "foldE f acc xs = (if list_ex bad xs then Inl e else Inr (foldl g acc xs))"
  by (induction xs arbitrary: acc) (simp_all add: assms)



lemma foldE_total:
  assumes "\<And>acc x. x \<in> set xs \<Longrightarrow> \<exists>r. step acc x = Inr r"
  shows "\<exists>r. foldE step acc xs = Inr r"
  using assms
proof (induction xs arbitrary: acc)
  case Nil
  then show ?case by simp
next
  case (Cons x xs)
  obtain r where r: "step acc x = Inr r"
    using Cons.prems[of x acc] by auto
  show ?case
    using Cons.IH[of r] Cons.prems r by simp
qed

section \<open>Element Correspondence Matcher\<close>

lemma foldl_add_points:
  "foldl (\<lambda>ms n. ms + pts n) acc ks = acc + sum_list (map pts ks)" for acc :: int
  by (induction ks arbitrary: acc) simp_all

lemma sum_list_two_one:
  "sum_list (map (\<lambda>n. if P n then 2 else if Q n then 1 else (0::int)) ks)
     = 2 * int (length (filter P ks)) + int (length (filter (\<lambda>n. \<not> P n \<and> Q n) ks))"
  by (induction ks) simp_all

lemma sublist_nonempty: "sublist bv av \<Longrightarrow> bv \<noteq> [] \<Longrightarrow> av \<noteq> []"
  by auto

lemma attributeMatchStep_cases:
  "attributeMatchStep afterAttrs matchScore entry =
     (if (case entry of (n, bv) \<Rightarrow>
            bv \<noteq> [] \<and> n \<in> set objectPrototypeMembers \<and> map_of afterAttrs n = None)
      then Inl TypeError
      else Inr (matchScore +
             (if (case entry of (n, bv) \<Rightarrow> map_of afterAttrs n = Some bv) then 2
              else if (case entry of (n, bv) \<Rightarrow>
                         (case map_of afterAttrs n of
                            Some av \<Rightarrow> av \<noteq> bv \<and> bv \<noteq> [] \<and> stringIncludes av bv
                          | None \<Rightarrow> False))
              then 1 else 0)))"
  by (cases entry)
     (auto simp: attributeMatchStep_def getProperty_def stringIncludes_def
           split: option.splits dest: sublist_nonempty)

lemma attribute_points:
  "foldE (attributeMatchStep afterAttrs) 0 beforeAttrs =
     (if list_ex (\<lambda>(n, bv). bv \<noteq> [] \<and> n \<in> set objectPrototypeMembers
                     \<and> map_of afterAttrs n = None) beforeAttrs
      then Inl TypeError
      else Inr (2 * int (length (filter (\<lambda>(n, bv). map_of afterAttrs n = Some bv) beforeAttrs))
                + int (length (filter (\<lambda>(n, bv).
                         case map_of afterAttrs n of
                           Some av \<Rightarrow> av \<noteq> bv \<and> bv \<noteq> [] \<and> stringIncludes av bv
                         | None \<Rightarrow> False) beforeAttrs))))"
proof -
  define P where "P = (\<lambda>(n, bv). map_of afterAttrs n = Some (bv :: string))"
  define R where "R = (\<lambda>(n, bv). case map_of afterAttrs n of
                           Some av \<Rightarrow> av \<noteq> bv \<and> bv \<noteq> [] \<and> stringIncludes av bv
                         | None \<Rightarrow> False)"
  define bad where "bad = (\<lambda>(n, bv :: string). bv \<noteq> [] \<and> n \<in> set objectPrototypeMembers
                     \<and> map_of afterAttrs n = None)"
  have step: "attributeMatchStep afterAttrs acc x =
      (if bad x then Inl TypeError
       else Inr (acc + (if P x then 2 else if R x then 1 else 0)))" for acc x
    unfolding attributeMatchStep_cases P_def R_def bad_def by simp
  have PR: "(\<lambda>x. \<not> P x \<and> R x) = R"
    by (intro ext) (auto simp: P_def R_def split: option.splits)
  have "foldE (attributeMatchStep afterAttrs) 0 beforeAttrs =
      (if list_ex bad beforeAttrs then Inl TypeError
       else Inr (foldl (\<lambda>acc x. acc + (if P x then 2 else if R x then 1 else 0)) 0 beforeAttrs))"
    by (rule foldE_split) (rule step)
  also have "\<dots> = (if list_ex bad beforeAttrs then Inl TypeError
       else Inr (2 * int (length (filter P beforeAttrs)) + int (length (filter R beforeAttrs))))"
    unfolding foldl_add_points sum_list_two_one PR by simp
  finally show ?thesis
    unfolding P_def R_def bad_def .
qed

lemma elementMatchScore_cases:
  "elementMatchScore beforeEl afterEl
     = (if attributeLookupFails beforeEl afterEl then Inl TypeError
        else Inr (amendedMatchScore beforeEl afterEl))"
  unfolding elementMatchScore_def Let_def attribute_points attributeLookupFails_def
    amendedMatchScore_def
  by simp

lemma plain_lookup:
  assumes "\<forall>n \<in> fst ` set (attributes beforeEl). n \<notin> set objectPrototypeMembers"
  shows "\<not> attributeLookupFails beforeEl afterEl"
proof -
  have "n \<notin> set objectPrototypeMembers" if "(n, bv) \<in> set (getAttributes beforeEl)" for n bv
  proof -
    have "n \<in> fst ` set (getAttributes beforeEl)"
      using that by (force simp: image_iff)
    then show ?thesis using keys_getAttributes[of beforeEl] assms by blast
  qed
  then show ?thesis
    by (auto simp: attributeLookupFails_def list_ex_iff)
qed


text \<open>The loop of \<open>_findMatchingElement\<close> keeps the first candidate of highest positive score.\<close>

lemma best_fold_invariant:
  fixes sc :: "'a \<Rightarrow> int"
  defines "step \<equiv> (\<lambda>(best, hi) x. if sc x > hi then (Some x, sc x) else (best, hi))"
  shows "case foldl step (None, 0) xs of
           (None, hi) \<Rightarrow> hi = 0 \<and> (\<forall>x \<in> set xs. sc x \<le> 0)
         | (Some c, hi) \<Rightarrow>
             hi = sc c \<and> 0 < sc c
             \<and> (\<exists>i < length xs. xs ! i = c \<and> (\<forall>j < i. sc (xs ! j) < sc c))
             \<and> (\<forall>x \<in> set xs. sc x \<le> sc c)"
proof (induction xs rule: rev_induct)
  case Nil
  then show ?case by simp
next
  case (snoc x xs)
  obtain best hi where st: "foldl step (None, 0) xs = (best, hi)"
    by (metis surj_pair)
  have bound: "\<forall>y \<in> set xs. sc y \<le> hi"
    using snoc st by (cases best) simp_all
  show ?case
  proof (cases "sc x > hi")
    case True
    have new: "foldl step (None, 0) (xs @ [x]) = (Some x, sc x)"
      using True st by (simp add: step_def)
    have pos: "0 < sc x"
      using snoc st True by (cases best) simp_all
    have "\<forall>j < length xs. sc (xs ! j) < sc x"
      using bound True by (meson le_less_trans nth_mem)
    then have first: "\<forall>j < length xs. sc ((xs @ [x]) ! j) < sc x"
      by (simp add: nth_append)
    have "length xs < length (xs @ [x]) \<and> (xs @ [x]) ! length xs = x"
      by simp
    then have ex: "\<exists>i < length (xs @ [x]). (xs @ [x]) ! i = x
                     \<and> (\<forall>j < i. sc ((xs @ [x]) ! j) < sc x)"
      using first by blast
    have all: "\<forall>y \<in> set (xs @ [x]). sc y \<le> sc x"
      using bound True by auto
    show ?thesis
      unfolding new using pos ex all by simp
  next
    case False
    have same: "foldl step (None, 0) (xs @ [x]) = (best, hi)"
      using False st by (simp add: step_def)
    show ?thesis
    proof (cases best)
      case None
      then show ?thesis
        unfolding same using snoc st False by auto
    next
      case (Some c)
      with snoc st obtain i where i: "i < length xs" "xs ! i = c" "\<forall>j < i. sc (xs ! j) < sc c"
        and hi: "hi = sc c" "0 < sc c"
        by auto
      have "\<forall>j < i. sc ((xs @ [x]) ! j) < sc c"
        using i by (simp add: nth_append)
      moreover have "i < length (xs @ [x])" "(xs @ [x]) ! i = c"
        using i by (simp_all add: nth_append)
      ultimately have ex: "\<exists>i < length (xs @ [x]). (xs @ [x]) ! i = c
                     \<and> (\<forall>j < i. sc ((xs @ [x]) ! j) < sc c)"
        by blast
      have all: "\<forall>y \<in> set (xs @ [x]). sc y \<le> sc c"
        using bound False hi by auto
      show ?thesis
        unfolding same Some using hi ex all by simp
    qed
  qed
qed

lemma findMatchingElement_cases:
  "findMatchingElement beforeEl afterElements
     = (if list_ex (attributeLookupFails beforeEl) afterElements then Inl TypeError
        else Inr (bestCandidate beforeEl afterElements))"
proof -
  define g where "g = (\<lambda>(best, hi) x. if amendedMatchScore beforeEl x > hi
                           then (Some x, amendedMatchScore beforeEl x) else (best, hi))"
  have step: "(case acc of (bestMatch, highestScore) \<Rightarrow> \<lambda>afterEl.
                    (case elementMatchScore beforeEl afterEl of
                       Inl e \<Rightarrow> Inl e
                     | Inr matchScore \<Rightarrow>
                         if matchScore > highestScore then Inr (Some afterEl, matchScore)
                         else Inr (bestMatch, highestScore))) x
              = (if attributeLookupFails beforeEl x then Inl TypeError else Inr (g acc x))"
    for acc :: "element option \<times> int" and x
    by (cases acc) (simp add: elementMatchScore_cases g_def)
  have "foldE (\<lambda>(bestMatch, highestScore) afterEl.
                    (case elementMatchScore beforeEl afterEl of
                       Inl e \<Rightarrow> Inl e
                     | Inr matchScore \<Rightarrow>
                         if matchScore > highestScore then Inr (Some afterEl, matchScore)
                         else Inr (bestMatch, highestScore)))
                 (None, 0) afterElements
        = (if list_ex (attributeLookupFails beforeEl) afterElements then Inl TypeError
           else Inr (foldl g (None, 0) afterElements))"
    by (rule foldE_split) (rule step)
  then show ?thesis
    unfolding findMatchingElement_def bestCandidate_def g_def
    by (simp split: prod.splits)
qed

lemma bestCandidate_Some:
  assumes "bestCandidate beforeEl afterElements = Some c"
  shows "0 < amendedMatchScore beforeEl c
         \<and> (\<exists>i < length afterElements. afterElements ! i = c
               \<and> (\<forall>j < i. amendedMatchScore beforeEl (afterElements ! j)
                              < amendedMatchScore beforeEl c))
         \<and> (\<forall>x \<in> set afterElements. amendedMatchScore beforeEl x \<le> amendedMatchScore beforeEl c)"
proof -
  define final where
    "final = foldl (\<lambda>(best, hi) x. if amendedMatchScore beforeEl x > hi
                              then (Some x, amendedMatchScore beforeEl x) else (best, hi))
       (None, 0) afterElements"
  obtain best hi where "final = (best, hi)"
    by (cases final)
  then have st:
    "foldl (\<lambda>(best, hi) x. if amendedMatchScore beforeEl x > hi
                              then (Some x, amendedMatchScore beforeEl x) else (best, hi))
       (None, 0) afterElements = (best, hi)"
    by (simp add: final_def)
  then have "best = Some c"
    using assms by (simp add: bestCandidate_def)
  then show ?thesis
    using best_fold_invariant[where sc = "amendedMatchScore beforeEl" and xs = afterElements] st
    by simp
qed



lemmas object_defs = getAttributes_def setProperty_def isArrayIndex_def isDigitChar_def
  getProperty_def objectPrototypeMembers_def

lemmas matcher_defs = elementMatchScore_def findMatchingElement_def attributeMatchStep_def
  object_defs getRelativePosition_def previousElementSiblings_def stringIncludes_def Let_def






section \<open>Term-match score\<close>











section \<open>Anchor Recommender: candidates\<close>






text \<open>The pool queries of the role-based strategy never raise for the roles of the catalog.\<close>

lemma catalog_role_pool:
  assumes "f \<in> set criticalFeatures"
  shows "\<exists>sel. querySelectorAll doc (roleSelector (featureRole f))
                  = Inr (filter (matches (quirksMode doc) sel) (allElements doc))"
  using assms by (auto simp: criticalFeatures_def querySelectorAll_def parse_role_selectors)

section \<open>Anchor Recommender: exceptions\<close>


lemma generateAdditionalSelectors_cases:
  "generateAdditionalSelectors el = Inl TypeError \<and> namespaceURI el = Svg
   \<or> (\<exists>s. generateAdditionalSelectors el = Inr s) \<and> namespaceURI el \<noteq> Svg"
  by (simp add: generateAdditionalSelectors_def className_def Let_def)

lemma getBestAttributeSelector_cases:
  "getBestAttributeSelector el attrType = Inl TypeError \<and> namespaceURI el = Svg
   \<or> (\<exists>s. getBestAttributeSelector el attrType = Inr s)"
  by (auto simp: getBestAttributeSelector_def classAttributeSelector_def className_def
        split: list.splits)



lemma bestCandidate_member:
  "bestCandidate beforeEl pool = Some c \<Longrightarrow> c \<in> set pool"
  using bestCandidate_Some[of beforeEl pool c] nth_mem by blast

lemma plain_names:
  "plainElement el \<Longrightarrow> \<forall>n \<in> fst ` set (attributes el). n \<notin> set objectPrototypeMembers"
  by (auto simp: plainElement_def list_ex_iff)

lemma findMatchingElement_plain:
  assumes "plainElement beforeEl"
  shows "findMatchingElement beforeEl pool = Inr (bestCandidate beforeEl pool)"
  using plain_lookup[OF plain_names[OF assms]]
  by (simp add: findMatchingElement_cases list_ex_iff)

lemma roleCandidateStep_plain:
  assumes "plainElement x" and "\<forall>c \<in> set as. plainElement c"
  shows "\<exists>r. roleCandidateStep role terms as acc x = Inr r"
proof (cases "bestCandidate x as")
  case None
  then show ?thesis
    by (simp add: roleCandidateStep_def Let_def findMatchingElement_plain[OF assms(1)])
next
  case (Some m)
  then have "plainElement m"
    using assms(2) bestCandidate_member by blast
  then obtain s where "generateAdditionalSelectors m = Inr s"
    using generateAdditionalSelectors_cases[of m] by (auto simp: plainElement_def)
  then show ?thesis
    using Some by (simp add: roleCandidateStep_def Let_def findMatchingElement_plain[OF assms(1)])
qed

lemma plain_feature_candidates:
  assumes "f \<in> set criticalFeatures" and "plainDocument beforeDOM" and "plainDocument afterDOM"
  shows "\<exists>cands. findStableElementsMatchingFeature beforeDOM afterDOM (featureRole f) (keyTerms f)
                   = Inr cands"
proof -
  obtain sb where bs: "querySelectorAll beforeDOM (roleSelector (featureRole f))
      = Inr (filter (matches (quirksMode beforeDOM) sb) (allElements beforeDOM))"
    using catalog_role_pool[OF assms(1)] by blast
  obtain sa where as: "querySelectorAll afterDOM (roleSelector (featureRole f))
      = Inr (filter (matches (quirksMode afterDOM) sa) (allElements afterDOM))"
    using catalog_role_pool[OF assms(1)] by blast
  have pa: "\<forall>c \<in> set (filter (matches (quirksMode afterDOM) sa) (allElements afterDOM)).
              plainElement c"
    using assms(3) by (simp add: plainDocument_def list_all_iff)
  have step: "\<exists>r. roleCandidateStep (featureRole f) (keyTerms f)
               (filter (matches (quirksMode afterDOM) sa) (allElements afterDOM)) acc x = Inr r"
    if "x \<in> set (filter (matches (quirksMode beforeDOM) sb) (allElements beforeDOM))" for acc x
  proof -
    have "plainElement x"
      using that assms(2) by (simp add: plainDocument_def list_all_iff)
    then show ?thesis using pa by (rule roleCandidateStep_plain)
  qed
  have "\<exists>c1. foldE (roleCandidateStep (featureRole f) (keyTerms f)
                 (filter (matches (quirksMode afterDOM) sa) (allElements afterDOM))) []
               (filter (matches (quirksMode beforeDOM) sb) (allElements beforeDOM)) = Inr c1"
    by (rule foldE_total) (rule step)
  then have "\<exists>c1. addCandidatesWithRole beforeDOM afterDOM (featureRole f) (keyTerms f) [] = Inr c1"
    unfolding addCandidatesWithRole_def bs as by simp
  then show ?thesis
    by (auto simp: findStableElementsMatchingFeature_def Let_def)
qed


section \<open>Anchor Recommender: recommendations\<close>



lemma recommendationsLoop_Inr:
  assumes "recommendationsLoop beforeDOM afterDOM fs acc = Inr result"
    and "distinct (map featureName fs)"
  shows "(\<forall>f \<in> set fs.
            \<exists>cands. findStableElementsMatchingFeature beforeDOM afterDOM (featureRole f) (keyTerms f)
                      = Inr cands
                  \<and> map_of result (featureName f) = Some (recommend cands))
         \<and> (\<forall>k. k \<notin> featureName ` set fs \<longrightarrow> map_of result k = map_of acc k)"
  using assms
proof (induction fs arbitrary: acc)
  case Nil
  then show ?case by simp
next
  case (Cons f fs)
  obtain cands where cands:
    "findStableElementsMatchingFeature beforeDOM afterDOM (featureRole f) (keyTerms f) = Inr cands"
    using Cons.prems(1) by (auto split: sum.splits)
  define acc' where "acc' = AList.update (featureName f) (recommend cands) acc"
  have loop: "recommendationsLoop beforeDOM afterDOM fs acc' = Inr result"
    using Cons.prems(1) cands by (simp add: acc'_def)
  have ih: "\<forall>g \<in> set fs.
            \<exists>cands. findStableElementsMatchingFeature beforeDOM afterDOM (featureRole g) (keyTerms g)
                      = Inr cands
                  \<and> map_of result (featureName g) = Some (recommend cands)"
    and rest: "\<forall>k. k \<notin> featureName ` set fs \<longrightarrow> map_of result k = map_of acc' k"
    using Cons.IH[OF loop] Cons.prems(2) by simp_all
  have "featureName f \<notin> featureName ` set fs"
    using Cons.prems(2) by simp
  then have head: "map_of result (featureName f) = Some (recommend cands)"
    using rest by (simp add: acc'_def update_conv')
  have rest': "\<forall>k. k \<notin> featureName ` set (f # fs) \<longrightarrow> map_of result k = map_of acc k"
    using rest by (simp add: acc'_def update_conv')
  show ?case
    using head ih rest' cands by auto
qed

lemma recommendationsLoop_total:
  assumes "\<And>f. f \<in> set fs \<Longrightarrow>
             \<exists>cands. findStableElementsMatchingFeature beforeDOM afterDOM (featureRole f) (keyTerms f)
                       = Inr cands"
  shows "\<exists>result. recommendationsLoop beforeDOM afterDOM fs acc = Inr result"
  using assms
proof (induction fs arbitrary: acc)
  case Nil
  then show ?case by simp
next
  case (Cons f fs)
  obtain cands where cands:
    "findStableElementsMatchingFeature beforeDOM afterDOM (featureRole f) (keyTerms f) = Inr cands"
    using Cons.prems[of f] by auto
  show ?case
    using Cons.IH[of "AList.update (featureName f) (recommend cands) acc"] Cons.prems cands
    by simp
qed


lemma distinct_feature_names: "distinct (map featureName criticalFeatures)"
  by (simp add: criticalFeatures_def)

lemma generateAnchorRecommendations_Inr:
  assumes "generateAnchorRecommendations beforeDOM afterDOM = Inr recs"
  shows "\<forall>f \<in> set criticalFeatures.
           \<exists>cands. findStableElementsMatchingFeature beforeDOM afterDOM (featureRole f) (keyTerms f)
                     = Inr cands
                 \<and> map_of recs (featureName f) = Some (recommend cands)"
  using recommendationsLoop_Inr[OF assms[unfolded generateAnchorRecommendations_def]
      distinct_feature_names]
  by blast

lemma generateAnchorRecommendations_plain:
  assumes "plainDocument beforeDOM" and "plainDocument afterDOM"
  shows "\<exists>recs. generateAnchorRecommendations beforeDOM afterDOM = Inr recs"
  unfolding generateAnchorRecommendations_def
  by (rule recommendationsLoop_total) (rule plain_feature_candidates[OF _ assms])


section \<open>Scores above 100\<close>

lemma elements_exampleInboxRole:
  "allElements exampleInboxRole ! 3 =
     \<lparr>namespaceURI = Html, tagName = ''DIV'',
      attributes = [(''role'', ''list''), (''aria-label'', ''inbox message mail'')],
      childNodes = [],
      ancestors = [\<lparr>parentNamespace = Html, parentTag = ''BODY'', parentAttributes = [],
                    lefts = [], rights = []\<rparr>,
                   \<lparr>parentNamespace = Html, parentTag = ''HTML'', parentAttributes = [],
                    lefts = [Element Html ''HEAD'' [] []], rights = []\<rparr>]\<rparr>"
  by (simp add: exampleInboxRole_def elements_page)

lemma plain_examples:
  "plainDocument exampleInboxRole"
  "plainDocument exampleInboxClass"
  "plainDocument exampleToolbar"
  "plainDocument exampleEmpty"
  by (simp_all add: plainDocument_def plainElement_def exampleInboxRole_def exampleInboxClass_def
        exampleToolbar_def elements_exampleEmpty elements_page elements_page_text
        objectPrototypeMembers_def)

lemma role_pool_exampleInboxRole:
  "querySelectorAll exampleInboxRole (roleSelector ''list'') = Inr [allElements exampleInboxRole ! 3]"
  by (simp add: querySelectorAll_def parse_role_selectors exampleInboxRole_def elements_page
        getAttribute_def)

lemma term_score_exampleInboxRole:
  "calculateTermMatchScore (allElements exampleInboxRole ! 3) [''message'', ''inbox'', ''mail''] = 5"
  by (simp add: elements_exampleInboxRole calculateTermMatchScore_def object_defs
        textContent_def stringIncludes_def sublist_code(3) toLowerCase_def toLowerChar_def Let_def)

lemma match_exampleInboxRole:
  "findMatchingElement (allElements exampleInboxRole ! 3) [allElements exampleInboxRole ! 3]
     = Inr (Some (allElements exampleInboxRole ! 3))"
  by (simp add: elements_exampleInboxRole matcher_defs)

lemma additional_exampleInboxRole:
  "generateAdditionalSelectors (allElements exampleInboxRole ! 3) = Inr ''div''"
  by (simp add: elements_exampleInboxRole generateAdditionalSelectors_def className_def
        classAttribute_def getAttribute_def previousElementSiblings_def nextElementSiblings_def
        parentElement_def toLowerCase_def toLowerChar_def Let_def)

lemma message_list_feature:
  "criticalFeatures ! 0 \<in> set criticalFeatures"
  "featureName (criticalFeatures ! 0) = ''MessageList''"
  "featureRole (criticalFeatures ! 0) = ''list''"
  "keyTerms (criticalFeatures ! 0) = [''message'', ''inbox'', ''mail'']"
  by (simp_all add: criticalFeatures_def)

lemma attribute_pools_exampleInboxRole:
  "attributePool exampleInboxRole ''id'' = Inr []"
  "attributePool exampleInboxRole ''data-'' = Inr []"
  "attributePool exampleInboxRole ''class'' = Inr []"
  by (simp_all add: attributePool_def querySelectorAll_def parse_attribute_selectors
        exampleInboxRole_def elements_page getAttribute_def hasDataAttribute_def startsWith_def)

lemma role_candidates_exampleInboxRole:
  "addCandidatesWithRole exampleInboxRole exampleInboxRole ''list''
       [''message'', ''inbox'', ''mail''] []
     = Inr [\<lparr>candSelector = roleSelector ''list'' @ ''div'', candStabilityScore = 110,
              candType = ''role-based''\<rparr>]"
  by (simp add: addCandidatesWithRole_def roleCandidateStep_def role_pool_exampleInboxRole
        term_score_exampleInboxRole match_exampleInboxRole additional_exampleInboxRole)

lemma candidates_exampleInboxRole:
  "findStableElementsMatchingFeature exampleInboxRole exampleInboxRole ''list''
       [''message'', ''inbox'', ''mail'']
     = Inr [\<lparr>candSelector = roleSelector ''list'' @ ''div'', candStabilityScore = 110,
              candType = ''role-based''\<rparr>]"
  by (simp add: findStableElementsMatchingFeature_def addCandidatesWithAttribute_def
        attribute_pools_exampleInboxRole role_candidates_exampleInboxRole)

text \<open>
  C2 fails on the code. For the snapshot \<open><div role="list" aria-label="inbox message
  mail">\<close> compared with itself and the feature \<open>MessageList\<close>, the role-based
  strategy retains one candidate; its term-match score is 5 and its stability score is
  \<open>85 + 5 * 5 = 110\<close>: nothing caps it at 100.
\<close>

theorem role_candidate_score_110:
  "addCandidatesWithRole exampleInboxRole exampleInboxRole ''list''
       [''message'', ''inbox'', ''mail''] []
     = Inr [\<lparr>candSelector = roleSelector ''list'' @ ''div'', candStabilityScore = 110,
              candType = ''role-based''\<rparr>]
   \<and> (\<exists>recs r. generateAnchorRecommendations exampleInboxRole exampleInboxRole = Inr recs
         \<and> map_of recs ''MessageList'' = Some r \<and> recStabilityScore r = 110
         \<and> selectorType r = Some ''role-based'')"
proof -
  obtain recs where recs:
    "generateAnchorRecommendations exampleInboxRole exampleInboxRole = Inr recs"
    using generateAnchorRecommendations_plain[OF plain_examples(1) plain_examples(1)] by blast
  have "map_of recs ''MessageList''
          = Some (recommend [\<lparr>candSelector = roleSelector ''list'' @ ''div'',
                               candStabilityScore = 110, candType = ''role-based''\<rparr>])"
    using generateAnchorRecommendations_Inr[OF recs] message_list_feature
      candidates_exampleInboxRole
    by fastforce
  then have "\<exists>r. map_of recs ''MessageList'' = Some r \<and> recStabilityScore r = 110
                \<and> selectorType r = Some ''role-based''"
    by (simp add: recommend_def)
  then show ?thesis using role_candidates_exampleInboxRole recs by blast
qed

section \<open>Comparing a snapshot with itself\<close>















text \<open>
  A second way in which a snapshot compared with itself gives no recommendations at
  all: for \<open><svg role="list" aria-label="inbox"></svg>\<close> the role-based strategy of the
  feature \<open>MessageList\<close> reaches \<open>className.split\<close> on the SVG element, and the
  \<open>TypeError\<close> leaves \<open>analyzeChanges\<close>.
\<close>

lemma svg_snapshot_raises:
  "generateAdditionalSelectors (allElements exampleSvgList ! 3) = Inl TypeError"
  "generateAnchorRecommendations exampleSvgList exampleSvgList = Inl TypeError"
  "analyzeChanges exampleSvgList exampleSvgList = Inl TypeError"
proof -
  have el: "allElements exampleSvgList ! 3 =
     \<lparr>namespaceURI = Svg, tagName = ''svg'',
      attributes = [(''role'', ''list''), (''aria-label'', ''inbox'')],
      childNodes = [],
      ancestors = [\<lparr>parentNamespace = Html, parentTag = ''BODY'', parentAttributes = [],
                    lefts = [], rights = []\<rparr>,
                   \<lparr>parentNamespace = Html, parentTag = ''HTML'', parentAttributes = [],
                    lefts = [Element Html ''HEAD'' [] []], rights = []\<rparr>]\<rparr>"
    by (simp add: exampleSvgList_def elements_page)
  show add: "generateAdditionalSelectors (allElements exampleSvgList ! 3) = Inl TypeError"
    by (simp add: el generateAdditionalSelectors_def className_def)
  have pool: "querySelectorAll exampleSvgList (roleSelector ''list'')
                = Inr [allElements exampleSvgList ! 3]"
    by (simp add: querySelectorAll_def parse_role_selectors exampleSvgList_def elements_page
          getAttribute_def)
  have score: "calculateTermMatchScore (allElements exampleSvgList ! 3)
                 [''message'', ''inbox'', ''mail''] = 2"
    by (simp add: el calculateTermMatchScore_def object_defs textContent_def stringIncludes_def
          sublist_code(3) toLowerCase_def toLowerChar_def Let_def)
  have match: "findMatchingElement (allElements exampleSvgList ! 3) [allElements exampleSvgList ! 3]
                 = Inr (Some (allElements exampleSvgList ! 3))"
    by (simp add: el matcher_defs)
  have "addCandidatesWithRole exampleSvgList exampleSvgList ''list''
          [''message'', ''inbox'', ''mail''] [] = Inl TypeError"
    by (simp add: addCandidatesWithRole_def roleCandidateStep_def pool score match add)
  then show rec: "generateAnchorRecommendations exampleSvgList exampleSvgList = Inl TypeError"
    by (simp add: generateAnchorRecommendations_def criticalFeatures_def
          findStableElementsMatchingFeature_def)
  have "\<exists>sa. findStableAttributes exampleSvgList exampleSvgList = Inr sa"
    using findStableAttributes_record[of "''id''" exampleSvgList exampleSvgList]
    by (auto simp: attributesToCheck_def)
  then show "analyzeChanges exampleSvgList exampleSvgList = Inl TypeError"
    by (auto simp: analyzeChanges_def rec Let_def)
qed




section \<open>Invalid selectors\<close>

lemma querySelector_raises:
  "querySelector doc s = Inl e \<longleftrightarrow> querySelectorAll doc s = Inl e"
  by (auto simp: querySelector_def split: sum.splits list.splits)














end
